theory Spec2Isabelle
  imports Complex_Main "HOL-Library.AList"
begin

section \<open>JSON values as the Python code sees them\<close>

text \<open>
  Every value the migration handles comes out of \<^verbatim>\<open>response.json()\<close>: \<^verbatim>\<open>None\<close>, a bool, an
  int, a float, a str, a list or a dict with string keys. A dict is an association list in
  insertion order. A float is the exact rational value of a finite double; the non-finite
  floats are left out. A \<open>string\<close> stands for a Python \<^verbatim>\<open>str\<close>, one \<open>char\<close> per character.
\<close>

datatype json =
    JNone
  | JBool bool
  | JInt int
  | JFloat rat
  | JStr string
  | JList "json list"
  | JDict "(string \<times> json) list"

text \<open>The exceptions the code can meet. \<open>JSONDecodeError\<close> is a subclass of \<open>ValueError\<close>.\<close>

datatype error =
    HTTPStatusError nat
  | TransportError
  | JSONDecodeError
  | ValueError string
  | KeyError json
  | IndexError
  | TypeError
  | AttributeError

fun is_HTTPStatusError :: "error \<Rightarrow> bool" where
  "is_HTTPStatusError (HTTPStatusError code) = True"
| "is_HTTPStatusError _ = False"

fun is_ValueError :: "error \<Rightarrow> bool" where
  "is_ValueError (ValueError msg) = True"
| "is_ValueError JSONDecodeError = True"
| "is_ValueError _ = False"

subsection \<open>Dynamic operations\<close>

text \<open>\<^verbatim>\<open>bool(x)\<close>, as \<^verbatim>\<open>if x\<close> and \<^verbatim>\<open>not x\<close> use it.\<close>

fun truthy :: "json \<Rightarrow> bool" where
  "truthy JNone = False"
| "truthy (JBool b) = b"
| "truthy (JInt n) = (n \<noteq> 0)"
| "truthy (JFloat r) = (r \<noteq> 0)"
| "truthy (JStr s) = (s \<noteq> [])"
| "truthy (JList xs) = (xs \<noteq> [])"
| "truthy (JDict d) = (d \<noteq> [])"

fun isinstance_dict :: "json \<Rightarrow> bool" where
  "isinstance_dict (JDict d) = True"
| "isinstance_dict _ = False"

text \<open>The number a bool, int or float stands for: \<^verbatim>\<open>True == 1 == 1.0\<close>.\<close>

fun num_of :: "json \<Rightarrow> rat option" where
  "num_of (JBool b) = Some (if b then 1 else 0)"
| "num_of (JInt n) = Some (of_int n)"
| "num_of (JFloat r) = Some r"
| "num_of _ = None"

text \<open>\<^verbatim>\<open>x == y\<close>. Two dicts are equal when they have the same keys with equal values, in any order.\<close>

fun py_eq :: "json \<Rightarrow> json \<Rightarrow> bool" where
  "py_eq JNone JNone = True"
| "py_eq (JStr a) (JStr b) = (a = b)"
| "py_eq (JList xs) (JList ys) = list_all2 py_eq xs ys"
| "py_eq (JDict a) (JDict b) =
     (length a = length b \<and>
      list_all (\<lambda>kv. case map_of b (fst kv) of None \<Rightarrow> False | Some v' \<Rightarrow> py_eq (snd kv) v') a)"
| "py_eq x y = (case (num_of x, num_of y) of (Some p, Some q) \<Rightarrow> p = q | _ \<Rightarrow> False)"

text \<open>\<^verbatim>\<open>obj.get(key, default)\<close>: only a dict has the method.\<close>

fun py_get :: "json \<Rightarrow> string \<Rightarrow> json \<Rightarrow> error + json" where
  "py_get (JDict d) key dflt = Inr (case map_of d key of None \<Rightarrow> dflt | Some v \<Rightarrow> v)"
| "py_get _ key dflt = Inl AttributeError"

text \<open>\<^verbatim>\<open>obj[key]\<close> with a string key.\<close>

fun py_index :: "json \<Rightarrow> string \<Rightarrow> error + json" where
  "py_index (JDict d) key = (case map_of d key of None \<Rightarrow> Inl (KeyError (JStr key)) | Some v \<Rightarrow> Inr v)"
| "py_index _ key = Inl TypeError"

text \<open>\<^verbatim>\<open>obj[0]\<close>.\<close>

fun py_first :: "json \<Rightarrow> error + json" where
  "py_first (JList []) = Inl IndexError"
| "py_first (JList (x # xs)) = Inr x"
| "py_first (JStr []) = Inl IndexError"
| "py_first (JStr (c # cs)) = Inr (JStr [c])"
| "py_first (JDict d) = Inl (KeyError (JInt 0))"
| "py_first _ = Inl TypeError"

text \<open>\<^verbatim>\<open>sub in s\<close> on two strs.\<close>

fun is_substring :: "string \<Rightarrow> string \<Rightarrow> bool" where
  "is_substring sub [] = (sub = [])"
| "is_substring sub (c # cs) = (take (length sub) (c # cs) = sub \<or> is_substring sub cs)"

text \<open>\<^verbatim>\<open>key in obj\<close> with a string key.\<close>

fun py_contains :: "string \<Rightarrow> json \<Rightarrow> error + bool" where
  "py_contains key (JDict d) = Inr (map_of d key \<noteq> None)"
| "py_contains key (JList xs) = Inr (list_ex (\<lambda>x. py_eq x (JStr key)) xs)"
| "py_contains key (JStr s) = Inr (is_substring key s)"
| "py_contains key _ = Inl TypeError"

text \<open>\<^verbatim>\<open>len(obj)\<close>.\<close>

fun py_len :: "json \<Rightarrow> error + int" where
  "py_len (JList xs) = Inr (int (length xs))"
| "py_len (JDict d) = Inr (int (length d))"
| "py_len (JStr s) = Inr (int (length s))"
| "py_len _ = Inl TypeError"

text \<open>What \<^verbatim>\<open>for x in obj\<close> runs through: a dict yields its keys, a str its characters.\<close>

fun py_iter :: "json \<Rightarrow> error + json list" where
  "py_iter (JList xs) = Inr xs"
| "py_iter (JDict d) = Inr (map (\<lambda>kv. JStr (fst kv)) d)"
| "py_iter (JStr s) = Inr (map (\<lambda>c. JStr [c]) s)"
| "py_iter _ = Inl TypeError"

text \<open>\<^verbatim>\<open>obj.pop(key, None)\<close>: \<^verbatim>\<open>list.pop\<close> takes one argument at most, the other types have no \<^verbatim>\<open>pop\<close>.\<close>

fun py_pop :: "json \<Rightarrow> string \<Rightarrow> error + json" where
  "py_pop (JDict d) key = Inr (JDict (AList.delete key d))"
| "py_pop (JList xs) key = Inl TypeError"
| "py_pop _ key = Inl AttributeError"

definition dict_keys :: "json \<Rightarrow> string list" where
  "dict_keys obj = (case obj of JDict d \<Rightarrow> map fst d | _ \<Rightarrow> [])"

section \<open>The payload-shaping transform\<close>

text \<open>
  \<^verbatim>\<open>ShopifyClient._prepare_product_data\<close>, as a function from the product to the payload it
  returns. The variant dicts are popped in place and stay in the list that holds them, so
  the payload shows the popped variants.
\<close>

definition allowed_fields :: "string list" where
  "allowed_fields =
     [''title'', ''body_html'', ''vendor'', ''product_type'', ''handle'',
      ''status'', ''variants'', ''images'', ''options'']"

definition keys_to_remove :: "string list" where
  "keys_to_remove =
     [''admin_graphql_api_id'', ''product_id'', ''id'', ''image_id'', ''inventory_item_id'',
      ''old_inventory_quantity'', ''requires_shipping'']"

fun pop_keys :: "string list \<Rightarrow> json \<Rightarrow> error + json" where
  "pop_keys [] variant = Inr variant"
| "pop_keys (key # keys) variant =
     (case py_pop variant key of Inl e \<Rightarrow> Inl e | Inr variant' \<Rightarrow> pop_keys keys variant')"

fun clean_variants :: "json list \<Rightarrow> error + json list" where
  "clean_variants [] = Inr []"
| "clean_variants (variant # rest) =
     (case pop_keys keys_to_remove variant of
        Inl e \<Rightarrow> Inl e
      | Inr variant' \<Rightarrow>
          (case clean_variants rest of Inl e \<Rightarrow> Inl e | Inr rest' \<Rightarrow> Inr (variant' # rest')))"

fun clean_images :: "json list \<Rightarrow> error + json list" where
  "clean_images [] = Inr []"
| "clean_images (img # rest) =
     (case py_contains ''src'' img of
        Inl e \<Rightarrow> Inl e
      | Inr has_src \<Rightarrow>
          if has_src then
            (case py_index img ''src'' of
               Inl e \<Rightarrow> Inl e
             | Inr src \<Rightarrow>
                 (case py_get img ''alt'' (JStr []) of
                    Inl e \<Rightarrow> Inl e
                  | Inr alt \<Rightarrow>
                      (case clean_images rest of
                         Inl e \<Rightarrow> Inl e
                       | Inr rest' \<Rightarrow> Inr (JDict [(''src'', src), (''alt'', alt)] # rest'))))
          else clean_images rest)"

text \<open>The block under \<^verbatim>\<open>if "variants" in cleaned_data\<close>.\<close>

definition clean_variants_field :: "(string \<times> json) list \<Rightarrow> error + (string \<times> json) list" where
  "clean_variants_field cleaned_data =
     (case map_of cleaned_data ''variants'' of
        None \<Rightarrow> Inr cleaned_data
      | Some variants \<Rightarrow>
          (case py_len variants of
             Inl e \<Rightarrow> Inl e
           | Inr variant_count \<Rightarrow>
               (case py_iter variants of
                  Inl e \<Rightarrow> Inl e
                | Inr items \<Rightarrow>
                    (case clean_variants items of
                       Inl e \<Rightarrow> Inl e
                     | Inr items' \<Rightarrow>
                         Inr (case variants of
                                JList xs \<Rightarrow> AList.update ''variants'' (JList items') cleaned_data
                              | _ \<Rightarrow> cleaned_data)))))"

text \<open>The block under \<^verbatim>\<open>if "images" in cleaned_data\<close>.\<close>

definition clean_images_field :: "(string \<times> json) list \<Rightarrow> error + (string \<times> json) list" where
  "clean_images_field cleaned_data =
     (case map_of cleaned_data ''images'' of
        None \<Rightarrow> Inr cleaned_data
      | Some images \<Rightarrow>
          (case py_len images of
             Inl e \<Rightarrow> Inl e
           | Inr image_count \<Rightarrow>
               (case py_iter images of
                  Inl e \<Rightarrow> Inl e
                | Inr items \<Rightarrow>
                    (case clean_images items of
                       Inl e \<Rightarrow> Inl e
                     | Inr cleaned_images \<Rightarrow>
                         Inr (AList.update ''images'' (JList cleaned_images) cleaned_data)))))"

definition prepare_product_data :: "json \<Rightarrow> error + json" where
  "prepare_product_data product_data =
     (case product_data of
        JDict items \<Rightarrow>
          (case clean_variants_field (filter (\<lambda>kv. fst kv \<in> set allowed_fields) items) of
             Inl e \<Rightarrow> Inl e
           | Inr cleaned_data \<Rightarrow>
               (case clean_images_field cleaned_data of
                  Inl e \<Rightarrow> Inl e
                | Inr cleaned_data' \<Rightarrow> Inr (JDict cleaned_data')))
      | _ \<Rightarrow> Inl AttributeError)"

text \<open>What iterating a field of a payload yields: its variants, its images.\<close>

definition payload_items :: "json \<Rightarrow> string \<Rightarrow> json list" where
  "payload_items payload field =
     (case py_index payload field of
        Inl e \<Rightarrow> []
      | Inr v \<Rightarrow> (case py_iter v of Inl e \<Rightarrow> [] | Inr xs \<Rightarrow> xs))"


section \<open>The remote stores\<close>

text \<open>
  \<^verbatim>\<open>httpx\<close> is not part of the repository. A request is what the client hands to it; the stores
  and the network answer through a transport function over a state of their own, which
  the theorems leave arbitrary. An f-string is kept in pieces: its literal text, the
  values it interpolates, and the exceptions it prints. The quotation marks that a log
  message puts around a value are left out of its literal text.
\<close>

datatype http_method = GET | POST | PUT

datatype piece = Lit string | Val json | Exc error

record request =
  req_method :: http_method
  req_url :: "piece list"
  req_params :: "(string \<times> json) list"
  req_headers :: "(string \<times> string) list"
  req_json :: "json option"

text \<open>
  What comes back: the request raised (\<open>TransportFailure\<close>), or a response arrived whose
  \<^verbatim>\<open>raise_for_status()\<close> raises \<^verbatim>\<open>HTTPStatusError\<close> with the given status code
  (\<open>StatusFailure\<close>), or one that passes it (\<open>Success\<close>), with the value \<^verbatim>\<open>response.json()\<close>
  returns, \<open>None\<close> when the body is not JSON.
\<close>

datatype response = TransportFailure | StatusFailure nat | Success "json option"

type_synonym 's transport = "request \<Rightarrow> 's \<Rightarrow> response \<times> 's"

datatype level = DEBUG | INFO | WARNING | ERROR

record 's world =
  net :: 's
  sent :: "request list"
  logged :: "(level \<times> piece list) list"

subsection \<open>Computations that may raise\<close>

type_synonym ('st, 'a) io = "'st \<Rightarrow> (error + 'a) \<times> 'st"

definition io_return :: "'a \<Rightarrow> ('st, 'a) io" where
  "io_return x = (\<lambda>st. (Inr x, st))"

definition io_raise :: "error \<Rightarrow> ('st, 'a) io" where
  "io_raise e = (\<lambda>st. (Inl e, st))"

definition io_lift :: "error + 'a \<Rightarrow> ('st, 'a) io" where
  "io_lift r = (\<lambda>st. (r, st))"

definition io_bind :: "('st, 'a) io \<Rightarrow> ('a \<Rightarrow> ('st, 'b) io) \<Rightarrow> ('st, 'b) io" where
  "io_bind m f = (\<lambda>st. case m st of (Inl e, st') \<Rightarrow> (Inl e, st') | (Inr x, st') \<Rightarrow> f x st')"

definition io_then :: "('st, 'a) io \<Rightarrow> ('st, 'b) io \<Rightarrow> ('st, 'b) io" where
  "io_then m n = io_bind m (\<lambda>x. n)"

text \<open>\<^verbatim>\<open>try: m except Exception as e: h e\<close>. The state reached when \<open>m\<close> raised is kept.\<close>

definition io_catch :: "('st, 'a) io \<Rightarrow> (error \<Rightarrow> ('st, 'a) io) \<Rightarrow> ('st, 'a) io" where
  "io_catch m h = (\<lambda>st. case m st of (Inl e, st') \<Rightarrow> h e st' | (Inr x, st') \<Rightarrow> (Inr x, st'))"

definition io_modify :: "('st \<Rightarrow> 'st) \<Rightarrow> ('st, unit) io" where
  "io_modify f = (\<lambda>st. (Inr (), f st))"

text \<open>The loggers are set to level INFO: a \<^verbatim>\<open>log.debug\<close> line is not emitted.\<close>

definition log :: "level \<Rightarrow> piece list \<Rightarrow> ('s world, unit) io" where
  "log lvl msg = io_modify (\<lambda>w. if lvl = DEBUG then w else w\<lparr>logged := logged w @ [(lvl, msg)]\<rparr>)"

text \<open>\<^verbatim>\<open>await client.get(...)\<close>, \<^verbatim>\<open>client.post\<close>, \<^verbatim>\<open>client.put\<close>.\<close>

definition client_send :: "'s transport \<Rightarrow> request \<Rightarrow> ('s world, response) io" where
  "client_send send rq =
     (\<lambda>w. case send rq (net w) of
             (resp, s') \<Rightarrow>
               ((case resp of TransportFailure \<Rightarrow> Inl TransportError | _ \<Rightarrow> Inr resp),
                w\<lparr>net := s', sent := sent w @ [rq]\<rparr>))"

fun raise_for_status :: "response \<Rightarrow> error + unit" where
  "raise_for_status (StatusFailure code) = Inl (HTTPStatusError code)"
| "raise_for_status _ = Inr ()"

fun response_json :: "response \<Rightarrow> error + json" where
  "response_json (Success (Some j)) = Inr j"
| "response_json _ = Inl JSONDecodeError"

text \<open>\<^verbatim>\<open>isinstance(obj, dict) and key in obj\<close>.\<close>

definition dict_has_key :: "string \<Rightarrow> json \<Rightarrow> bool" where
  "dict_has_key key obj = (case obj of JDict d \<Rightarrow> map_of d key \<noteq> None | _ \<Rightarrow> False)"

section \<open>The API client\<close>

record client =
  store_url :: string
  base_url :: string
  headers :: "(string \<times> string) list"

definition endswith :: "string \<Rightarrow> string \<Rightarrow> bool" where
  "endswith s suf = (length suf \<le> length s \<and> drop (length s - length suf) s = suf)"

text \<open>\<^verbatim>\<open>ShopifyClient.__init__\<close>.\<close>

definition ShopifyClient :: "string \<Rightarrow> string \<Rightarrow> ('s world, client) io" where
  "ShopifyClient url admin_key =
     (if url = [] \<or> admin_key = [] then
        io_raise (ValueError ''All credentials (store_url, admin_key) must be provided'')
      else if \<not> endswith url ''myshopify.com'' then
        io_raise (ValueError (''Store URL must end with '' @ [CHR 0x27] @ ''myshopify.com''
                              @ [CHR 0x27]))
      else
        io_then (log INFO [Lit ''Initialized Shopify client for store: '', Lit url])
          (io_return
             \<lparr>store_url = url,
              base_url = ''https://'' @ url @ ''/admin/api/2024-01'',
              headers = [(''X-Shopify-Access-Token'', admin_key),
                         (''Content-Type'', ''application/json'')]\<rparr>))"

definition validate_credentials :: "'s transport \<Rightarrow> client \<Rightarrow> ('s world, bool) io" where
  "validate_credentials send self =
     io_catch
       (io_bind
          (client_send send
             \<lparr>req_method = GET, req_url = [Lit (base_url self), Lit ''/shop.json''],
              req_params = [], req_headers = headers self, req_json = None\<rparr>)
          (\<lambda>response.
             io_bind (io_lift (raise_for_status response))
               (\<lambda>u. io_then
                  (log INFO [Lit ''Successfully validated credentials for store: '',
                             Lit (store_url self)])
                  (io_return True))))
       (\<lambda>e. if is_HTTPStatusError e then
                io_then
                  (if e = HTTPStatusError 401 then
                     log ERROR [Lit ''Invalid admin access token for store '', Lit (store_url self),
                                Lit ''. Please check your Admin API access token.'']
                   else log ERROR [Lit ''HTTP error during credential validation: '', Exc e])
                  (io_return False)
              else
                io_then (log ERROR [Lit ''Error validating credentials: '', Exc e])
                  (io_return False))"

text \<open>The loop under \<^verbatim>\<open># Validate product data\<close> in \<^verbatim>\<open>get_products\<close>.\<close>

fun validate_product_data :: "json list \<Rightarrow> ('s world, unit) io" where
  "validate_product_data [] = io_return ()"
| "validate_product_data (product # rest) =
     io_then
       (if \<not> dict_has_key ''id'' product then
          log WARNING [Lit ''Found invalid product data in response'']
        else io_return ())
       (validate_product_data rest)"

definition get_products :: "'s transport \<Rightarrow> client \<Rightarrow> int \<Rightarrow> ('s world, json) io" where
  "get_products send self limit =
     io_then
       (log INFO [Lit ''Fetching products from '', Lit (store_url self), Lit '' (limit: '',
                  Val (JInt limit), Lit '')''])
       (io_catch
          (io_bind (validate_credentials send self)
             (\<lambda>valid.
                if \<not> valid then
                  io_raise (ValueError (''Invalid credentials for store '' @ store_url self))
                else
                  io_bind
                    (client_send send
                       \<lparr>req_method = GET, req_url = [Lit (base_url self), Lit ''/products.json''],
                        req_params =
                          [(''limit'', JInt limit),
                           (''fields'', JStr ''id,title,body_html,vendor,product_type,handle,status,variants,images,options'')],
                        req_headers = headers self, req_json = None\<rparr>)
                    (\<lambda>response.
                       io_bind (io_lift (raise_for_status response))
                         (\<lambda>u. io_bind (io_lift (response_json response))
                            (\<lambda>response_data.
                               if \<not> dict_has_key ''products'' response_data then
                                 io_raise (ValueError ''Invalid response format from Shopify API'')
                               else
                                 io_bind (io_lift (py_index response_data ''products''))
                                   (\<lambda>products.
                                      io_bind (io_lift (py_len products))
                                        (\<lambda>n. io_then
                                           (log INFO [Lit ''Retrieved '', Val (JInt n),
                                                      Lit '' products from '', Lit (store_url self)])
                                           (io_bind (io_lift (py_iter products))
                                              (\<lambda>items.
                                                 io_then (validate_product_data items)
                                                   (io_return products))))))))))
          (\<lambda>e. io_then
                  (if is_HTTPStatusError e then
                     io_then
                       (log ERROR [Lit ''HTTP error occurred while fetching products: '', Exc e])
                       (if e = HTTPStatusError 429 then
                          log ERROR [Lit ''Rate limit exceeded. Please wait before retrying.'']
                        else io_return ())
                   else if is_ValueError e then log ERROR [Lit ''Validation error: '', Exc e]
                   else log ERROR [Lit ''Unexpected error while fetching products: '', Exc e])
                  (io_raise e)))"

text \<open>
  The part of \<^verbatim>\<open>create_product\<close> and \<^verbatim>\<open>update_product\<close> after the request: the response is
  checked and the product in it taken out.
\<close>

definition product_of_response :: "response \<Rightarrow> error + json" where
  "product_of_response response =
     (case raise_for_status response of
        Inl e \<Rightarrow> Inl e
      | Inr u \<Rightarrow>
          (case response_json response of
             Inl e \<Rightarrow> Inl e
           | Inr response_data \<Rightarrow>
               if \<not> dict_has_key ''product'' response_data then
                 Inl (ValueError ''Invalid response format from Shopify API'')
               else py_index response_data ''product''))"

text \<open>The \<^verbatim>\<open>try\<close> block of \<^verbatim>\<open>create_product\<close>, with its \<^verbatim>\<open>except\<close> clauses.\<close>

definition post_product :: "'s transport \<Rightarrow> client \<Rightarrow> json \<Rightarrow> json \<Rightarrow> ('s world, json) io" where
  "post_product send self title clean_data =
     io_catch
       (io_bind
          (client_send send
             \<lparr>req_method = POST,
              req_url = [Lit (base_url self), Lit ''/products.json''],
              req_params = [], req_headers = headers self,
              req_json = Some (JDict [(''product'', clean_data)])\<rparr>)
          (\<lambda>response.
             io_bind (io_lift (product_of_response response))
               (\<lambda>created_product.
                  io_bind (io_lift (py_index created_product ''title''))
                    (\<lambda>created_title.
                       io_bind (io_lift (py_index created_product ''id''))
                         (\<lambda>created_id.
                            io_then
                              (log INFO [Lit ''Successfully created product '',
                                         Val created_title, Lit '' (ID: '',
                                         Val created_id, Lit '')''])
                              (io_return created_product))))))
       (\<lambda>e. io_then
               (if is_HTTPStatusError e then
                  io_then
                    (log ERROR [Lit ''HTTP error occurred while creating product '',
                                Val title, Lit '': '', Exc e])
                    (if e = HTTPStatusError 422 then
                       log ERROR [Lit ''Validation error from Shopify API: '']
                     else io_return ())
                else if is_ValueError e then
                  log ERROR [Lit ''Validation error: '', Exc e]
                else
                  log ERROR [Lit ''Unexpected error while creating product '',
                             Val title, Lit '': '', Exc e])
               (io_raise e))"

definition create_product :: "'s transport \<Rightarrow> client \<Rightarrow> json \<Rightarrow> ('s world, json) io" where
  "create_product send self product_data =
     io_bind (io_lift (py_get product_data ''title'' (JStr ''Unknown'')))
       (\<lambda>title.
          io_then
            (log INFO [Lit ''Creating product '', Val title, Lit '' in '', Lit (store_url self)])
            (io_bind (io_lift (prepare_product_data product_data))
               (post_product send self title)))"

text \<open>The \<^verbatim>\<open>try\<close> block of \<^verbatim>\<open>update_product\<close>, with its \<^verbatim>\<open>except\<close> clauses.\<close>

definition put_product ::
  "'s transport \<Rightarrow> client \<Rightarrow> json \<Rightarrow> json \<Rightarrow> ('s world, json) io" where
  "put_product send self product_id clean_data =
     io_catch
       (io_bind
          (client_send send
             \<lparr>req_method = PUT,
              req_url = [Lit (base_url self), Lit ''/products/'', Val product_id,
                         Lit ''.json''],
              req_params = [], req_headers = headers self,
              req_json = Some (JDict [(''product'', clean_data)])\<rparr>)
          (\<lambda>response.
             io_bind (io_lift (product_of_response response))
               (\<lambda>updated_product.
                  io_bind (io_lift (py_index updated_product ''title''))
                    (\<lambda>updated_title.
                       io_then
                         (log INFO [Lit ''Successfully updated product '',
                                    Val updated_title, Lit '' (ID: '',
                                    Val product_id, Lit '')''])
                         (io_return updated_product)))))
       (\<lambda>e. io_then
               (if is_HTTPStatusError e then
                  io_then
                    (log ERROR [Lit ''HTTP error occurred while updating product '',
                                Val product_id, Lit '': '', Exc e])
                    (if e = HTTPStatusError 422 then
                       log ERROR [Lit ''Validation error from Shopify API: '']
                     else io_return ())
                else if is_ValueError e then
                  log ERROR [Lit ''Validation error: '', Exc e]
                else
                  log ERROR [Lit ''Unexpected error while updating product '',
                             Val product_id, Lit '': '', Exc e])
               (io_raise e))"

definition update_product :: "'s transport \<Rightarrow> client \<Rightarrow> json \<Rightarrow> json \<Rightarrow> ('s world, json) io" where
  "update_product send self product_id product_data =
     io_bind (io_lift (py_get product_data ''title'' (JStr ''Unknown'')))
       (\<lambda>title.
          io_then
            (log INFO [Lit ''Updating product '', Val title, Lit '' (ID: '', Val product_id,
                       Lit '') in '', Lit (store_url self)])
            (io_bind (io_lift (prepare_product_data product_data))
               (put_product send self product_id)))"

text \<open>The two loops of \<^verbatim>\<open>get_product_by_sku\<close>.\<close>

fun sku_in_variants :: "json list \<Rightarrow> json \<Rightarrow> error + bool" where
  "sku_in_variants [] sku = Inr False"
| "sku_in_variants (variant # rest) sku =
     (case py_get variant ''sku'' JNone of
        Inl e \<Rightarrow> Inl e
      | Inr v \<Rightarrow> if py_eq v sku then Inr True else sku_in_variants rest sku)"

fun find_product_by_sku :: "client \<Rightarrow> json list \<Rightarrow> json \<Rightarrow> ('s world, json) io" where
  "find_product_by_sku self [] sku =
     io_then
       (log INFO [Lit ''No product found with SKU '', Val sku])
       (io_return JNone)"
| "find_product_by_sku self (product # rest) sku =
     io_bind (io_lift (py_get product ''variants'' (JList [])))
       (\<lambda>variants.
          io_bind (io_lift (py_iter variants))
            (\<lambda>vs. io_bind (io_lift (sku_in_variants vs sku))
               (\<lambda>found.
                  if found then
                    io_bind (io_lift (py_index product ''title''))
                      (\<lambda>title.
                         io_then
                           (log INFO [Lit ''Found product '', Val title, Lit '' with SKU '', Val sku])
                           (io_return product))
                  else find_product_by_sku self rest sku)))"

definition get_product_by_sku :: "'s transport \<Rightarrow> client \<Rightarrow> json \<Rightarrow> ('s world, json) io" where
  "get_product_by_sku send self sku =
     io_then
       (log INFO [Lit ''Searching for product with SKU '', Val sku, Lit '' in '',
                  Lit (store_url self)])
       (io_catch
          (io_bind (get_products send self 250)
             (\<lambda>products.
                io_bind (io_lift (py_iter products))
                  (\<lambda>items. find_product_by_sku self items sku)))
          (\<lambda>e. io_then
                  (log ERROR [Lit ''Error while searching for product with SKU '', Val sku,
                              Lit '': '', Exc e])
                  (io_raise e)))"

definition get_collections :: "'s transport \<Rightarrow> client \<Rightarrow> ('s world, json) io" where
  "get_collections send self =
     io_catch
       (io_bind (validate_credentials send self)
          (\<lambda>valid.
             io_bind
               (client_send send
                  \<lparr>req_method = GET,
                   req_url = [Lit (base_url self), Lit ''/custom_collections.json''],
                   req_params = [], req_headers = headers self, req_json = None\<rparr>)
               (\<lambda>response.
                  io_bind (io_lift (raise_for_status response))
                    (\<lambda>u. io_bind (io_lift (response_json response))
                       (\<lambda>data.
                          if \<not> dict_has_key ''custom_collections'' data then
                            io_raise (ValueError ''Invalid response format for collections'')
                          else
                            io_bind (io_lift (py_index data ''custom_collections''))
                              (\<lambda>collections.
                                 io_bind (io_lift (py_len collections))
                                   (\<lambda>n. io_then
                                      (log INFO [Lit ''Retrieved '', Val (JInt n),
                                                 Lit '' collections from '', Lit (store_url self)])
                                      (io_return collections))))))))
       (\<lambda>e. io_then
               (if is_HTTPStatusError e then
                  log ERROR [Lit ''HTTP error occurred while fetching collections: '', Exc e]
                else log ERROR [Lit ''Error fetching collections: '', Exc e])
               (io_raise e))"

text \<open>The loop of \<^verbatim>\<open>get_collection_by_title\<close>.\<close>

fun find_collection_by_title :: "json list \<Rightarrow> json \<Rightarrow> error + json" where
  "find_collection_by_title [] title = Inr JNone"
| "find_collection_by_title (collection # rest) title =
     (case py_get collection ''title'' JNone of
        Inl e \<Rightarrow> Inl e
      | Inr t \<Rightarrow> if py_eq t title then Inr collection else find_collection_by_title rest title)"

definition get_collection_by_title :: "'s transport \<Rightarrow> client \<Rightarrow> json \<Rightarrow> ('s world, json) io" where
  "get_collection_by_title send self title =
     io_catch
       (io_bind (get_collections send self)
          (\<lambda>collections.
             io_bind (io_lift (py_iter collections))
               (\<lambda>items. io_lift (find_collection_by_title items title))))
       (\<lambda>e. io_then
               (log ERROR [Lit ''Error finding collection by title: '', Exc e])
               (io_raise e))"

text \<open>\<^verbatim>\<open>create_collection(self, title, description="")\<close>.\<close>

definition create_collection ::
  "'s transport \<Rightarrow> client \<Rightarrow> json \<Rightarrow> json \<Rightarrow> ('s world, json) io" where
  "create_collection send self title description =
     io_catch
       (io_bind (validate_credentials send self)
          (\<lambda>valid.
             io_bind
               (client_send send
                  \<lparr>req_method = POST,
                   req_url = [Lit (base_url self), Lit ''/custom_collections.json''],
                   req_params = [], req_headers = headers self,
                   req_json =
                     Some (JDict [(''custom_collection'',
                                   JDict [(''title'', title), (''body_html'', description)])])\<rparr>)
               (\<lambda>response.
                  io_bind (io_lift (raise_for_status response))
                    (\<lambda>u. io_bind (io_lift (response_json response))
                       (\<lambda>data.
                          if \<not> dict_has_key ''custom_collection'' data then
                            io_raise (ValueError ''Invalid response format for collection creation'')
                          else
                            io_then
                              (log INFO [Lit ''Created collection '', Val title, Lit '' in '',
                                         Lit (store_url self)])
                              (io_lift (py_index data ''custom_collection'')))))))
       (\<lambda>e. io_then
               (if is_HTTPStatusError e then
                  log ERROR [Lit ''HTTP error occurred while creating collection: '', Exc e]
                else log ERROR [Lit ''Error creating collection: '', Exc e])
               (io_raise e))"

text \<open>The loop of \<^verbatim>\<open>get_product_collections\<close>: one lookup of collects for each collection.\<close>

fun collections_with_product ::
  "'s transport \<Rightarrow> client \<Rightarrow> json \<Rightarrow> json list \<Rightarrow> ('s world, json list) io" where
  "collections_with_product send self product_id [] = io_return []"
| "collections_with_product send self product_id (collection # rest) =
     io_bind (io_lift (py_index collection ''id''))
       (\<lambda>collection_id.
          io_bind
            (client_send send
               \<lparr>req_method = GET,
                req_url = [Lit (base_url self), Lit ''/collects.json?product_id='', Val product_id,
                           Lit ''&collection_id='', Val collection_id],
                req_params = [], req_headers = headers self, req_json = None\<rparr>)
            (\<lambda>response.
               io_bind (io_lift (raise_for_status response))
                 (\<lambda>u. io_bind (io_lift (response_json response))
                    (\<lambda>data.
                       io_bind
                         (if \<not> dict_has_key ''collects'' data then io_return False
                          else io_bind (io_lift (py_index data ''collects''))
                                 (\<lambda>collects. io_return (truthy collects)))
                         (\<lambda>member.
                            io_bind (collections_with_product send self product_id rest)
                              (\<lambda>others.
                                 io_return (if member then collection # others else others)))))))"

definition get_product_collections ::
  "'s transport \<Rightarrow> client \<Rightarrow> json \<Rightarrow> ('s world, json list) io" where
  "get_product_collections send self product_id =
     io_catch
       (io_bind (validate_credentials send self)
          (\<lambda>valid.
             io_bind (get_collections send self)
               (\<lambda>collections.
                  io_bind (io_lift (py_iter collections))
                    (\<lambda>items.
                       io_bind (collections_with_product send self product_id items)
                         (\<lambda>product_collections.
                            io_then
                              (log INFO [Lit ''Found '',
                                         Val (JInt (int (length product_collections))),
                                         Lit '' collections for product '', Val product_id])
                              (io_return product_collections))))))
       (\<lambda>e. io_then
               (if is_HTTPStatusError e then
                  log ERROR [Lit ''HTTP error occurred while fetching product collections: '', Exc e]
                else log ERROR [Lit ''Error fetching product collections: '', Exc e])
               (io_raise e))"

definition add_product_to_collection ::
  "'s transport \<Rightarrow> client \<Rightarrow> json \<Rightarrow> json \<Rightarrow> ('s world, json) io" where
  "add_product_to_collection send self product_id collection_id =
     io_catch
       (io_bind (validate_credentials send self)
          (\<lambda>valid.
             io_bind
               (client_send send
                  \<lparr>req_method = POST,
                   req_url = [Lit (base_url self), Lit ''/collects.json''],
                   req_params = [], req_headers = headers self,
                   req_json =
                     Some (JDict [(''collect'',
                                   JDict [(''product_id'', product_id),
                                          (''collection_id'', collection_id)])])\<rparr>)
               (\<lambda>response.
                  io_bind (io_lift (raise_for_status response))
                    (\<lambda>u. io_bind (io_lift (response_json response))
                       (\<lambda>data.
                          if \<not> dict_has_key ''collect'' data then
                            io_raise (ValueError ''Invalid response format for collect creation'')
                          else
                            io_then
                              (log INFO [Lit ''Added product '', Val product_id,
                                         Lit '' to collection '', Val collection_id])
                              (io_lift (py_index data ''collect'')))))))
       (\<lambda>e. io_then
               (if is_HTTPStatusError e then
                  log ERROR [Lit ''HTTP error occurred while adding product to collection: '', Exc e]
                else log ERROR [Lit ''Error adding product to collection: '', Exc e])
               (io_raise e))"

section \<open>The migration orchestrator\<close>

text \<open>
  The local variables of \<^verbatim>\<open>migrate_products\<close>, with the world they run in. The two progress
  tasks are the number of times each was advanced.
\<close>

record 's migration =
  world :: "'s world"
  created_count :: int
  updated_count :: int
  skipped_count :: int
  error_count :: int
  collection_count :: int
  product_collections :: "(json \<times> json list) list"
  migrate_task :: int
  collection_task :: int

definition in_world :: "('s world, 'a) io \<Rightarrow> ('s migration, 'a) io" where
  "in_world m = (\<lambda>g. case m (world g) of (r, w') \<Rightarrow> (r, g\<lparr>world := w'\<rparr>))"

text \<open>
  \<^verbatim>\<open>d[key] = value\<close> on a dict in insertion order: a key that is there keeps its place and
  gets the new value, a new key goes to the end. A list or a dict is not hashable.
\<close>

fun hashable :: "json \<Rightarrow> bool" where
  "hashable (JList xs) = False"
| "hashable (JDict d) = False"
| "hashable _ = True"

fun dict_set :: "(json \<times> 'v) list \<Rightarrow> json \<Rightarrow> 'v \<Rightarrow> (json \<times> 'v) list" where
  "dict_set [] key v = [(key, v)]"
| "dict_set ((k, v') # d) key v =
     (if py_eq k key then (k, v) # d else (k, v') # dict_set d key v)"

definition py_setitem :: "(json \<times> 'v) list \<Rightarrow> json \<Rightarrow> 'v \<Rightarrow> error + (json \<times> 'v) list" where
  "py_setitem d key v = (if hashable key then Inr (dict_set d key v) else Inl TypeError)"

text \<open>\<^verbatim>\<open>d[key]\<close> read back, for the statements about the recording.\<close>

fun dict_lookup :: "(json \<times> 'v) list \<Rightarrow> json \<Rightarrow> 'v option" where
  "dict_lookup [] key = None"
| "dict_lookup ((k, v) # d) key = (if py_eq k key then Some v else dict_lookup d key)"

subsection \<open>Phase 1: products\<close>

text \<open>The two skip branches: warn, count, advance, \<^verbatim>\<open>continue\<close>.\<close>

definition skip_product :: "json \<Rightarrow> string \<Rightarrow> ('s migration, unit) io" where
  "skip_product product reason =
     io_bind (io_lift (py_get product ''title'' (JStr ''Unknown'')))
       (\<lambda>title.
          io_then
            (in_world (log WARNING [Lit ''Skipping product '', Val title, Lit reason]))
            (io_then
               (io_modify (\<lambda>g. g\<lparr>skipped_count := skipped_count g + 1\<rparr>))
               (io_modify (\<lambda>g. g\<lparr>migrate_task := migrate_task g + 1\<rparr>))))"

text \<open>The block under \<^verbatim>\<open># Get product collections before migration\<close>.\<close>

definition fetch_source_collections ::
  "'s transport \<Rightarrow> client \<Rightarrow> json \<Rightarrow> ('s migration, json list) io" where
  "fetch_source_collections send source_client product =
     io_catch
       (io_bind (io_lift (py_index product ''id''))
          (\<lambda>product_id.
             io_bind (in_world (get_product_collections send source_client product_id))
               (\<lambda>source_collections.
                  io_bind (io_lift (py_get product ''title'' JNone))
                    (\<lambda>title.
                       io_then
                         (in_world
                            (log INFO [Lit ''Found '',
                                       Val (JInt (int (length source_collections))),
                                       Lit '' collections for product '', Val title]))
                         (io_return source_collections)))))
       (\<lambda>e. io_bind (io_lift (py_get product ''title'' JNone))
               (\<lambda>title.
                  io_then
                    (in_world
                       (log WARNING [Lit ''Failed to fetch collections for product '', Val title,
                                     Lit '': '', Exc e]))
                    (io_return [])))"

text \<open>
  The \<^verbatim>\<open>if existing_product: ... else: ...\<close> block. The result is \<^verbatim>\<open>migrated_product\<close>, which
  stays \<^verbatim>\<open>None\<close> when the write fails.
\<close>

definition write_product ::
  "'s transport \<Rightarrow> client \<Rightarrow> json \<Rightarrow> json \<Rightarrow> json \<Rightarrow> ('s migration, json) io" where
  "write_product send dest_client product sku existing_product =
     (if truthy existing_product then
        io_catch
          (io_bind (io_lift (py_index existing_product ''id''))
             (\<lambda>existing_id.
                io_bind (in_world (update_product send dest_client existing_id product))
                  (\<lambda>migrated_product.
                     io_bind (io_lift (py_get product ''title'' JNone))
                       (\<lambda>title.
                          io_then
                            (in_world
                               (log INFO [Lit ''Updated product '', Val title, Lit '' with SKU '',
                                          Val sku]))
                            (io_then
                               (io_modify (\<lambda>g. g\<lparr>updated_count := updated_count g + 1\<rparr>))
                               (io_return migrated_product))))))
          (\<lambda>e. io_bind (io_lift (py_get product ''title'' JNone))
                  (\<lambda>title.
                     io_then
                       (in_world
                          (log ERROR [Lit ''Failed to update product '', Val title,
                                      Lit '' with SKU '', Val sku, Lit '': '', Exc e]))
                       (io_then
                          (io_modify (\<lambda>g. g\<lparr>error_count := error_count g + 1\<rparr>))
                          (io_return JNone))))
      else
        io_catch
          (io_bind (in_world (create_product send dest_client product))
             (\<lambda>migrated_product.
                io_bind (io_lift (py_get product ''title'' JNone))
                  (\<lambda>title.
                     io_then
                       (in_world
                          (log INFO [Lit ''Created product '', Val title, Lit '' with SKU '',
                                     Val sku]))
                       (io_then
                          (io_modify (\<lambda>g. g\<lparr>created_count := created_count g + 1\<rparr>))
                          (io_return migrated_product)))))
          (\<lambda>e. io_bind (io_lift (py_get product ''title'' JNone))
                  (\<lambda>title.
                     io_then
                       (in_world
                          (log ERROR [Lit ''Failed to create product '', Val title,
                                      Lit '' with SKU '', Val sku, Lit '': '', Exc e]))
                       (io_then
                          (io_modify (\<lambda>g. g\<lparr>error_count := error_count g + 1\<rparr>))
                          (io_return JNone)))))"

text \<open>The block under \<^verbatim>\<open># Store collection information for later processing\<close>.\<close>

definition record_collections :: "json \<Rightarrow> json list \<Rightarrow> ('s migration, unit) io" where
  "record_collections migrated_product source_collections =
     (if truthy migrated_product \<and> source_collections \<noteq> [] then
        io_bind (io_lift (py_index migrated_product ''id''))
          (\<lambda>key g.
             case py_setitem (product_collections g) key source_collections of
               Inl e \<Rightarrow> (Inl e, g)
             | Inr d \<Rightarrow> (Inr (), g\<lparr>product_collections := d\<rparr>))
      else io_return ())"

text \<open>The body of the loop over the source products, with its \<^verbatim>\<open>try\<close> and \<^verbatim>\<open>except\<close>.\<close>

definition migrate_product ::
  "'s transport \<Rightarrow> client \<Rightarrow> client \<Rightarrow> json \<Rightarrow> ('s migration, unit) io" where
  "migrate_product send source_client dest_client product =
     io_catch
       (io_bind (io_lift (py_get product ''variants'' (JList [])))
          (\<lambda>variants.
             if \<not> truthy variants then skip_product product '' - No variants found''
             else
               io_bind (io_lift (py_first variants))
                 (\<lambda>first_variant.
                    io_bind (io_lift (py_get first_variant ''sku'' JNone))
                      (\<lambda>sku.
                         if \<not> truthy sku then
                           skip_product product '' - No SKU found in first variant''
                         else
                           io_bind (fetch_source_collections send source_client product)
                             (\<lambda>source_collections.
                                io_bind (in_world (get_product_by_sku send dest_client sku))
                                  (\<lambda>existing_product.
                                     io_bind
                                       (write_product send dest_client product sku
                                          existing_product)
                                       (\<lambda>migrated_product.
                                          io_then
                                            (record_collections migrated_product
                                               source_collections)
                                            (io_modify
                                               (\<lambda>g. g\<lparr>migrate_task :=
                                                          migrate_task g + 1\<rparr>)))))))))
       (\<lambda>e. io_then
               (io_modify (\<lambda>g. g\<lparr>error_count := error_count g + 1\<rparr>))
               (io_bind (io_lift (py_get product ''title'' (JStr ''Unknown'')))
                  (\<lambda>title.
                     io_then
                       (in_world
                          (log ERROR [Lit ''Error processing product '', Val title, Lit '': '',
                                      Exc e]))
                       (io_modify (\<lambda>g. g\<lparr>migrate_task := migrate_task g + 1\<rparr>)))))"

fun migrate_each ::
  "'s transport \<Rightarrow> client \<Rightarrow> client \<Rightarrow> json list \<Rightarrow> ('s migration, unit) io" where
  "migrate_each send source_client dest_client [] = io_return ()"
| "migrate_each send source_client dest_client (product # rest) =
     io_then (migrate_product send source_client dest_client product)
       (migrate_each send source_client dest_client rest)"

subsection \<open>Phase 2: collections\<close>

text \<open>
  Lines 128 to 143: the destination collection of that title, or a new one. \<open>None\<close> is the
  \<^verbatim>\<open>continue\<close> after a failed creation.
\<close>

definition find_or_create_collection ::
  "'s transport \<Rightarrow> client \<Rightarrow> json \<Rightarrow> ('s migration, json option) io" where
  "find_or_create_collection send dest_client collection =
     io_bind (io_lift (py_index collection ''title''))
       (\<lambda>title.
          io_bind (in_world (get_collection_by_title send dest_client title))
            (\<lambda>dest_collection.
               if \<not> truthy dest_collection then
                 io_bind (io_lift (py_get collection ''body_html'' (JStr [])))
                   (\<lambda>body_html.
                      io_bind (io_lift (py_get collection ''published'' (JBool True)))
                        (\<lambda>published.
                           io_catch
                             (io_bind
                                (in_world
                                   (create_collection send dest_client
                                      (JDict [(''title'', title), (''body_html'', body_html),
                                              (''published'', published)])
                                      (JStr [])))
                                (\<lambda>created.
                                   io_then
                                     (in_world (log INFO [Lit ''Created collection '', Val title]))
                                     (io_return (Some created))))
                             (\<lambda>e. io_then
                                     (in_world
                                        (log ERROR [Lit ''Failed to create collection '', Val title,
                                                    Lit '': '', Exc e]))
                                     (io_then
                                        (io_modify
                                           (\<lambda>g. g\<lparr>collection_task := collection_task g + 1\<rparr>))
                                        (io_return None)))))
               else io_return (Some dest_collection)))"

text \<open>The block under \<^verbatim>\<open># Add product to collection\<close>, up to its \<^verbatim>\<open>except\<close>.\<close>

definition associate_product ::
  "'s transport \<Rightarrow> client \<Rightarrow> json \<Rightarrow> json \<Rightarrow> json \<Rightarrow> ('s migration, unit) io" where
  "associate_product send dest_client product_id collection dest_collection =
     io_catch
       (io_bind (io_lift (py_index dest_collection ''id''))
          (\<lambda>collection_id.
             io_bind
               (in_world
                  (add_product_to_collection send dest_client product_id collection_id))
               (\<lambda>collect.
                  io_bind (io_lift (py_index collection ''title''))
                    (\<lambda>title.
                       io_then
                         (in_world
                            (log INFO [Lit ''Added product '', Val product_id,
                                       Lit '' to collection '', Val title]))
                         (io_modify
                            (\<lambda>g. g\<lparr>collection_count := collection_count g + 1\<rparr>))))))
       (\<lambda>e. io_bind (io_lift (py_index collection ''title''))
               (\<lambda>title.
                  in_world
                    (log ERROR [Lit ''Failed to add product '', Val product_id,
                                Lit '' to collection '', Val title, Lit '': '', Exc e])))"

text \<open>The body of the inner loop of phase 2, with its \<^verbatim>\<open>try\<close> and \<^verbatim>\<open>except\<close>.\<close>

definition migrate_collection ::
  "'s transport \<Rightarrow> client \<Rightarrow> json \<Rightarrow> json \<Rightarrow> ('s migration, unit) io" where
  "migrate_collection send dest_client product_id collection =
     io_catch
       (io_bind (find_or_create_collection send dest_client collection)
          (\<lambda>found.
             case found of
               None \<Rightarrow> io_return ()
             | Some dest_collection \<Rightarrow>
                 io_then
                   (associate_product send dest_client product_id collection dest_collection)
                   (io_modify (\<lambda>g. g\<lparr>collection_task := collection_task g + 1\<rparr>))))
       (\<lambda>e. io_bind (io_lift (py_get collection ''title'' (JStr ''Unknown'')))
               (\<lambda>title.
                  io_then
                    (in_world
                       (log ERROR [Lit ''Error processing collection '', Val title,
                                   Lit '' for product '', Val product_id, Lit '': '', Exc e]))
                    (io_then
                       (io_modify (\<lambda>g. g\<lparr>error_count := error_count g + 1\<rparr>))
                       (io_modify (\<lambda>g. g\<lparr>collection_task := collection_task g + 1\<rparr>)))))"

fun migrate_collections_of ::
  "'s transport \<Rightarrow> client \<Rightarrow> json \<Rightarrow> json list \<Rightarrow> ('s migration, unit) io" where
  "migrate_collections_of send dest_client product_id [] = io_return ()"
| "migrate_collections_of send dest_client product_id (collection # rest) =
     io_then (migrate_collection send dest_client product_id collection)
       (migrate_collections_of send dest_client product_id rest)"

fun migrate_recorded ::
  "'s transport \<Rightarrow> client \<Rightarrow> (json \<times> json list) list \<Rightarrow> ('s migration, unit) io" where
  "migrate_recorded send dest_client [] = io_return ()"
| "migrate_recorded send dest_client ((product_id, collections) # rest) =
     io_then (migrate_collections_of send dest_client product_id collections)
       (migrate_recorded send dest_client rest)"

text \<open>The block under \<^verbatim>\<open># Process collections after all products are migrated\<close>.\<close>

definition migrate_all_collections :: "'s transport \<Rightarrow> client \<Rightarrow> ('s migration, unit) io" where
  "migrate_all_collections send dest_client =
     (\<lambda>g. if product_collections g \<noteq> [] then
             io_then
               (in_world (log INFO [Lit ''Starting collection migration process'']))
               (migrate_recorded send dest_client (product_collections g)) g
           else (Inr (), g))"

subsection \<open>The whole run\<close>

text \<open>The report under \<^verbatim>\<open># Log final statistics\<close>.\<close>

definition log_final_statistics :: "int \<Rightarrow> ('s migration, unit) io" where
  "log_final_statistics total_products =
     (\<lambda>g. in_world
             (io_then (log INFO [Lit ''Migration completed!''])
             (io_then (log INFO [Lit ''Total products processed: '', Val (JInt total_products)])
             (io_then (log INFO [Lit ''Products created: '', Val (JInt (created_count g))])
             (io_then (log INFO [Lit ''Products updated: '', Val (JInt (updated_count g))])
             (io_then (log INFO [Lit ''Products skipped: '', Val (JInt (skipped_count g))])
             (io_then (log INFO [Lit ''Collection assignments: '', Val (JInt (collection_count g))])
                (if error_count g > 0 then
                   log WARNING [Lit ''Items with errors: '', Val (JInt (error_count g))]
                 else io_return ()))))))) g)"

text \<open>The assignments under \<^verbatim>\<open># Track statistics\<close>, with the empty \<^verbatim>\<open>product_collections\<close>.\<close>

definition reset_counts :: "'s migration \<Rightarrow> 's migration" where
  "reset_counts g =
     g\<lparr>created_count := 0, updated_count := 0, skipped_count := 0, error_count := 0,
       collection_count := 0, product_collections := []\<rparr>"

definition migrate_products :: "'s transport \<Rightarrow> client \<Rightarrow> client \<Rightarrow> ('s migration, unit) io" where
  "migrate_products send source_client dest_client =
     io_catch
       (io_then (in_world (log INFO [Lit ''Starting product migration process'']))
          (io_bind (in_world (get_products send source_client 250))
             (\<lambda>source_products.
                io_bind (io_lift (py_len source_products))
                  (\<lambda>total_products.
                     io_then
                       (in_world
                          (log INFO [Lit ''Found '', Val (JInt total_products),
                                     Lit '' products to migrate'']))
                       (io_then (io_modify reset_counts)
                          (io_bind (io_lift (py_iter source_products))
                             (\<lambda>items.
                                io_then (migrate_each send source_client dest_client items)
                                  (io_then (migrate_all_collections send dest_client)
                                     (log_final_statistics total_products)))))))))
       (\<lambda>e. io_then
               (in_world (log ERROR [Lit ''Migration failed: '', Exc e]))
               (io_raise e))"

text \<open>A run starts with nothing counted and nothing recorded.\<close>

definition start :: "'s world \<Rightarrow> 's migration" where
  "start w =
     \<lparr>world = w, created_count = 0, updated_count = 0, skipped_count = 0, error_count = 0,
      collection_count = 0, product_collections = [], migrate_task = 0, collection_task = 0\<rparr>"

section \<open>The client's writes on shared objects\<close>

text \<open>
  \<^verbatim>\<open>_prepare_product_data\<close> copies references, not objects: the dict it builds holds the very
  list of variants the caller's product holds, and it pops keys from the variant dicts in
  that list. Here the objects live in a store. A value is a scalar or a reference to an
  object; an object is a dict or a list of values; a new object gets the next free
  address.
\<close>

datatype val = VNone | VBool bool | VInt int | VFloat rat | VStr string | VRef nat

datatype obj = ODict "(string \<times> val) list" | OList "val list"

type_synonym heap = "obj list"

text \<open>The object a value refers to. Python has no dangling reference: \<open>None\<close> only keeps this total.\<close>

fun deref :: "heap \<Rightarrow> val \<Rightarrow> obj option" where
  "deref h (VRef a) = (if a < length h then Some (h ! a) else None)"
| "deref h _ = None"

definition new :: "obj \<Rightarrow> (heap, val) io" where
  "new ob = (\<lambda>h. (Inr (VRef (length h)), h @ [ob]))"

text \<open>\<^verbatim>\<open>obj.items()\<close>: only a dict has the method.\<close>

definition h_items :: "val \<Rightarrow> (heap, (string \<times> val) list) io" where
  "h_items v =
     (\<lambda>h. (case deref h v of Some (ODict d) \<Rightarrow> Inr d | _ \<Rightarrow> Inl AttributeError, h))"

text \<open>\<^verbatim>\<open>obj.get(key, default)\<close>.\<close>

definition h_get :: "val \<Rightarrow> string \<Rightarrow> val \<Rightarrow> (heap, val) io" where
  "h_get v key dflt =
     (\<lambda>h. (case deref h v of
              Some (ODict d) \<Rightarrow> Inr (case map_of d key of None \<Rightarrow> dflt | Some x \<Rightarrow> x)
            | _ \<Rightarrow> Inl AttributeError, h))"

text \<open>\<^verbatim>\<open>obj[key]\<close> with a string key.\<close>

definition h_index :: "val \<Rightarrow> string \<Rightarrow> (heap, val) io" where
  "h_index v key =
     (\<lambda>h. (case deref h v of
              Some (ODict d) \<Rightarrow>
                (case map_of d key of None \<Rightarrow> Inl (KeyError (JStr key)) | Some x \<Rightarrow> Inr x)
            | _ \<Rightarrow> Inl TypeError, h))"

text \<open>\<^verbatim>\<open>key in obj\<close> with a string key: among the values, only a str equals a str.\<close>

definition h_contains :: "string \<Rightarrow> val \<Rightarrow> (heap, bool) io" where
  "h_contains key v =
     (\<lambda>h. (case v of
              VStr s \<Rightarrow> Inr (is_substring key s)
            | _ \<Rightarrow>
                (case deref h v of
                   Some (ODict d) \<Rightarrow> Inr (map_of d key \<noteq> None)
                 | Some (OList xs) \<Rightarrow> Inr (List.member xs (VStr key))
                 | None \<Rightarrow> Inl TypeError), h))"

text \<open>\<^verbatim>\<open>len(obj)\<close>.\<close>

definition h_len :: "val \<Rightarrow> (heap, int) io" where
  "h_len v =
     (\<lambda>h. (case v of
              VStr s \<Rightarrow> Inr (int (length s))
            | _ \<Rightarrow>
                (case deref h v of
                   Some (ODict d) \<Rightarrow> Inr (int (length d))
                 | Some (OList xs) \<Rightarrow> Inr (int (length xs))
                 | None \<Rightarrow> Inl TypeError), h))"

text \<open>What \<^verbatim>\<open>for x in obj\<close> runs through.\<close>

definition h_iter :: "val \<Rightarrow> (heap, val list) io" where
  "h_iter v =
     (\<lambda>h. (case v of
              VStr s \<Rightarrow> Inr (map (\<lambda>c. VStr [c]) s)
            | _ \<Rightarrow>
                (case deref h v of
                   Some (ODict d) \<Rightarrow> Inr (map (\<lambda>kv. VStr (fst kv)) d)
                 | Some (OList xs) \<Rightarrow> Inr xs
                 | None \<Rightarrow> Inl TypeError), h))"

text \<open>\<^verbatim>\<open>obj.pop(key, None)\<close>, in place.\<close>

fun h_pop :: "val \<Rightarrow> string \<Rightarrow> (heap, unit) io" where
  "h_pop (VRef a) key =
     (\<lambda>h. case deref h (VRef a) of
             Some (ODict d) \<Rightarrow> (Inr (), h[a := ODict (AList.delete key d)])
           | Some (OList xs) \<Rightarrow> (Inl TypeError, h)
           | None \<Rightarrow> (Inl AttributeError, h))"
| "h_pop _ key = io_raise AttributeError"

text \<open>\<^verbatim>\<open>obj[key] = value\<close> on a dict, in place.\<close>

fun h_setitem :: "val \<Rightarrow> string \<Rightarrow> val \<Rightarrow> (heap, unit) io" where
  "h_setitem (VRef a) key x =
     (\<lambda>h. case deref h (VRef a) of
             Some (ODict d) \<Rightarrow> (Inr (), h[a := ODict (AList.update key x d)])
           | _ \<Rightarrow> (Inl TypeError, h))"
| "h_setitem _ key x = io_raise TypeError"

subsection \<open>The transform\<close>

fun pop_keys_heap :: "string list \<Rightarrow> val \<Rightarrow> (heap, unit) io" where
  "pop_keys_heap [] variant = io_return ()"
| "pop_keys_heap (key # keys) variant =
     io_then (h_pop variant key) (pop_keys_heap keys variant)"

fun clean_variants_heap :: "val list \<Rightarrow> (heap, unit) io" where
  "clean_variants_heap [] = io_return ()"
| "clean_variants_heap (variant # rest) =
     io_then (pop_keys_heap keys_to_remove variant) (clean_variants_heap rest)"

fun clean_images_heap :: "val list \<Rightarrow> (heap, val list) io" where
  "clean_images_heap [] = io_return []"
| "clean_images_heap (img # rest) =
     io_bind (h_contains ''src'' img)
       (\<lambda>has_src.
          if has_src then
            io_bind (h_index img ''src'')
              (\<lambda>src.
                 io_bind (h_get img ''alt'' (VStr []))
                   (\<lambda>alt.
                      io_bind (new (ODict [(''src'', src), (''alt'', alt)]))
                        (\<lambda>cleaned_image.
                           io_bind (clean_images_heap rest)
                             (\<lambda>others. io_return (cleaned_image # others)))))
          else clean_images_heap rest)"

definition prepare_product_data_heap :: "val \<Rightarrow> (heap, val) io" where
  "prepare_product_data_heap product_data =
     io_bind (h_items product_data)
       (\<lambda>items.
          io_bind (new (ODict (filter (\<lambda>kv. fst kv \<in> set allowed_fields) items)))
            (\<lambda>cleaned_data.
               io_then
                 (io_bind (h_contains ''variants'' cleaned_data)
                    (\<lambda>has_variants.
                       if has_variants then
                         io_bind (h_index cleaned_data ''variants'')
                           (\<lambda>variants.
                              io_bind (h_len variants)
                                (\<lambda>variant_count.
                                   io_bind (h_iter variants) clean_variants_heap))
                       else io_return ()))
                 (io_then
                    (io_bind (h_contains ''images'' cleaned_data)
                       (\<lambda>has_images.
                          if has_images then
                            io_bind (h_index cleaned_data ''images'')
                              (\<lambda>images.
                                 io_bind (h_len images)
                                   (\<lambda>image_count.
                                      io_bind (h_iter images)
                                        (\<lambda>items.
                                           io_bind (clean_images_heap items)
                                             (\<lambda>cleaned.
                                                io_bind (new (OList cleaned))
                                                  (\<lambda>cleaned_images.
                                                     h_setitem cleaned_data ''images''
                                                       cleaned_images)))))
                          else io_return ()))
                    (io_return cleaned_data))))"

subsection \<open>Serialising and parsing\<close>

text \<open>
  \<^verbatim>\<open>json.dumps\<close> follows the references and raises \<^verbatim>\<open>ValueError\<close> on a circular one. A path
  through more objects than the store holds passes some object twice, so the depth is
  bounded by the size of the store.
\<close>

fun collect :: "(error + 'a) list \<Rightarrow> error + 'a list" where
  "collect [] = Inr []"
| "collect (r # rs) =
     (case r of
        Inl e \<Rightarrow> Inl e
      | Inr x \<Rightarrow> (case collect rs of Inl e \<Rightarrow> Inl e | Inr xs \<Rightarrow> Inr (x # xs)))"

fun dump :: "nat \<Rightarrow> heap \<Rightarrow> val \<Rightarrow> error + json" where
  "dump n h VNone = Inr JNone"
| "dump n h (VBool b) = Inr (JBool b)"
| "dump n h (VInt i) = Inr (JInt i)"
| "dump n h (VFloat r) = Inr (JFloat r)"
| "dump n h (VStr s) = Inr (JStr s)"
| "dump 0 h (VRef a) = Inl (ValueError ''Circular reference detected'')"
| "dump (Suc n) h (VRef a) =
     (case deref h (VRef a) of
        None \<Rightarrow> Inl TypeError
      | Some (OList xs) \<Rightarrow>
          (case collect (map (dump n h) xs) of Inl e \<Rightarrow> Inl e | Inr js \<Rightarrow> Inr (JList js))
      | Some (ODict d) \<Rightarrow>
          (case collect (map (\<lambda>kv. dump n h (snd kv)) d) of
             Inl e \<Rightarrow> Inl e
           | Inr js \<Rightarrow> Inr (JDict (zip (map fst d) js))))"

definition dumps :: "val \<Rightarrow> (heap, json) io" where
  "dumps v = (\<lambda>h. (dump (length h) h v, h))"

text \<open>\<^verbatim>\<open>response.json()\<close> builds a fresh object for every list and dict of the document.\<close>

fun load :: "json \<Rightarrow> heap \<Rightarrow> val \<times> heap"
  and load_list :: "json list \<Rightarrow> heap \<Rightarrow> val list \<times> heap"
  and load_items :: "(string \<times> json) list \<Rightarrow> heap \<Rightarrow> (string \<times> val) list \<times> heap" where
  "load JNone h = (VNone, h)"
| "load (JBool b) h = (VBool b, h)"
| "load (JInt i) h = (VInt i, h)"
| "load (JFloat r) h = (VFloat r, h)"
| "load (JStr s) h = (VStr s, h)"
| "load (JList js) h =
     (case load_list js h of (vs, h') \<Rightarrow> (VRef (length h'), h' @ [OList vs]))"
| "load (JDict d) h =
     (case load_items d h of (kvs, h') \<Rightarrow> (VRef (length h'), h' @ [ODict kvs]))"
| "load_list [] h = ([], h)"
| "load_list (j # js) h =
     (case load j h of (v, h') \<Rightarrow> (case load_list js h' of (vs, h'') \<Rightarrow> (v # vs, h'')))"
| "load_items [] h = ([], h)"
| "load_items (kj # d) h =
     (case load (snd kj) h of
        (v, h') \<Rightarrow> (case load_items d h' of (kvs, h'') \<Rightarrow> ((fst kj, v) # kvs, h'')))"

subsection \<open>\<^verbatim>\<open>create_product\<close> and \<^verbatim>\<open>update_product\<close> on a caller's object\<close>

definition on_heap :: "(heap, 'a) io \<Rightarrow> (heap \<times> 'w, 'a) io" where
  "on_heap m = (\<lambda>hw. case m (fst hw) of (r, h') \<Rightarrow> (r, (h', snd hw)))"

definition on_world :: "('w, 'a) io \<Rightarrow> (heap \<times> 'w, 'a) io" where
  "on_world m = (\<lambda>hw. case m (snd hw) of (r, w') \<Rightarrow> (r, (fst hw, w')))"

text \<open>A value as a log line shows it; one that cannot be serialised is shown as \<^verbatim>\<open>None\<close> here.\<close>

definition shown :: "val \<Rightarrow> (heap, json) io" where
  "shown v = (\<lambda>h. (Inr (case dump (length h) h v of Inl e \<Rightarrow> JNone | Inr j \<Rightarrow> j), h))"

definition create_product_heap ::
  "'s transport \<Rightarrow> client \<Rightarrow> val \<Rightarrow> (heap \<times> 's world, json) io" where
  "create_product_heap send self product_data =
     io_bind (on_heap (h_get product_data ''title'' (VStr ''Unknown'')))
       (\<lambda>title_value.
          io_bind (on_heap (shown title_value))
            (\<lambda>title.
               io_then
                 (on_world
                    (log INFO [Lit ''Creating product '', Val title, Lit '' in '',
                               Lit (store_url self)]))
                 (io_bind (on_heap (prepare_product_data_heap product_data))
                    (\<lambda>clean_data.
                       io_bind (on_heap (dumps clean_data))
                         (\<lambda>payload. on_world (post_product send self title payload))))))"

definition update_product_heap ::
  "'s transport \<Rightarrow> client \<Rightarrow> json \<Rightarrow> val \<Rightarrow> (heap \<times> 's world, json) io" where
  "update_product_heap send self product_id product_data =
     io_bind (on_heap (h_get product_data ''title'' (VStr ''Unknown'')))
       (\<lambda>title_value.
          io_bind (on_heap (shown title_value))
            (\<lambda>title.
               io_then
                 (on_world
                    (log INFO [Lit ''Updating product '', Val title, Lit '' (ID: '',
                               Val product_id, Lit '') in '', Lit (store_url self)]))
                 (io_bind (on_heap (prepare_product_data_heap product_data))
                    (\<lambda>clean_data.
                       io_bind (on_heap (dumps clean_data))
                         (\<lambda>payload. on_world (put_product send self product_id payload))))))"

text \<open>The variant objects of a product: what iterating its \<^verbatim>\<open>variants\<close> entry yields.\<close>

definition variants_of :: "heap \<Rightarrow> val \<Rightarrow> val list" where
  "variants_of h product_data =
     (case fst (h_index product_data ''variants'' h) of
        Inl e \<Rightarrow> []
      | Inr variants \<Rightarrow> (case fst (h_iter variants h) of Inl e \<Rightarrow> [] | Inr xs \<Rightarrow> xs))"

text \<open>The keys of the dict a value refers to.\<close>

definition keys_at :: "heap \<Rightarrow> val \<Rightarrow> string list" where
  "keys_at h v = (case deref h v of Some (ODict d) \<Rightarrow> map fst d | _ \<Rightarrow> [])"

definition is_dict_at :: "heap \<Rightarrow> val \<Rightarrow> bool" where
  "is_dict_at h v = (case deref h v of Some (ODict d) \<Rightarrow> True | _ \<Rightarrow> False)"

section \<open>Concrete inputs\<close>

text \<open>The product of the repository's test fixture (\<^verbatim>\<open>tests/test_shopify_client.py\<close>).\<close>

definition sample_product :: json where
  "sample_product = JDict
     [(''id'', JInt 1),
      (''title'', JStr ''Test Product''),
      (''body_html'', JStr ''<p>Test description</p>''),
      (''vendor'', JStr ''Test Vendor''),
      (''product_type'', JStr ''Test Type''),
      (''handle'', JStr ''test-product''),
      (''status'', JStr ''active''),
      (''variants'', JList
         [JDict [(''id'', JInt 1), (''product_id'', JInt 1), (''sku'', JStr ''TEST-SKU-1''),
                 (''price'', JStr ''10.00''), (''inventory_quantity'', JInt 10)],
          JDict [(''id'', JInt 2), (''product_id'', JInt 1), (''sku'', JStr ''TEST-SKU-2''),
                 (''price'', JStr ''15.00''), (''inventory_quantity'', JInt 5)]]),
      (''images'', JList
         [JDict [(''id'', JInt 1), (''src'', JStr ''https://test.com/image1.jpg''),
                 (''alt'', JStr ''Test Image 1''), (''position'', JInt 1)],
          JDict [(''id'', JInt 2), (''src'', JStr ''https://test.com/image2.jpg''),
                 (''alt'', JStr ''Test Image 2''), (''position'', JInt 2)]]),
      (''options'', JList
         [JDict [(''name'', JStr ''Size''),
                 (''values'', JList [JStr ''Small'', JStr ''Medium'', JStr ''Large''])]])]"

definition sample_payload :: json where
  "sample_payload = JDict
     [(''title'', JStr ''Test Product''),
      (''body_html'', JStr ''<p>Test description</p>''),
      (''vendor'', JStr ''Test Vendor''),
      (''product_type'', JStr ''Test Type''),
      (''handle'', JStr ''test-product''),
      (''status'', JStr ''active''),
      (''variants'', JList
         [JDict [(''sku'', JStr ''TEST-SKU-1''), (''price'', JStr ''10.00''),
                 (''inventory_quantity'', JInt 10)],
          JDict [(''sku'', JStr ''TEST-SKU-2''), (''price'', JStr ''15.00''),
                 (''inventory_quantity'', JInt 5)]]),
      (''images'', JList
         [JDict [(''src'', JStr ''https://test.com/image1.jpg''), (''alt'', JStr ''Test Image 1'')],
          JDict [(''src'', JStr ''https://test.com/image2.jpg''), (''alt'', JStr ''Test Image 2'')]]),
      (''options'', JList
         [JDict [(''name'', JStr ''Size''),
                 (''values'', JList [JStr ''Small'', JStr ''Medium'', JStr ''Large''])]])]"

text \<open>
  A pair of stores that answer every request from a fixed table of method, URL and
  response, and with 404 for anything else.
\<close>

definition answer_from :: "(http_method \<times> piece list \<times> response) list \<Rightarrow> 's transport" where
  "answer_from table rq s =
     (case find (\<lambda>entry. fst entry = req_method rq \<and> fst (snd entry) = req_url rq) table of
        None \<Rightarrow> (StatusFailure 404, s)
      | Some entry \<Rightarrow> (snd (snd entry), s))"

definition source_store :: client where
  "source_store =
     \<lparr>store_url = ''source.myshopify.com'',
      base_url = ''https://source.myshopify.com/admin/api/2024-01'',
      headers = [(''X-Shopify-Access-Token'', ''source-token''),
                 (''Content-Type'', ''application/json'')]\<rparr>"

definition dest_store :: client where
  "dest_store =
     \<lparr>store_url = ''dest.myshopify.com'',
      base_url = ''https://dest.myshopify.com/admin/api/2024-01'',
      headers = [(''X-Shopify-Access-Token'', ''dest-token''),
                 (''Content-Type'', ''application/json'')]\<rparr>"

definition idle :: "unit world" where
  "idle = \<lparr>net = (), sent = [], logged = []\<rparr>"

definition shop_ok :: "client \<Rightarrow> http_method \<times> piece list \<times> response" where
  "shop_ok c =
     (GET, [Lit (base_url c), Lit ''/shop.json''],
      Success (Some (JDict [(''shop'', JDict [(''id'', JInt 1)])])))"

text \<open>A product listing with an entry that has no identifier.\<close>

definition orphan_listing :: "(http_method \<times> piece list \<times> response) list" where
  "orphan_listing =
     [shop_ok source_store,
      (GET, [Lit (base_url source_store), Lit ''/products.json''],
       Success (Some (JDict [(''products'',
          JList [JDict [(''title'', JStr ''Orphan'')],
                 JDict [(''id'', JInt 1), (''title'', JStr ''Shirt'')]])])))]"

text \<open>
  One source product, Shirt with SKU-1, a member of the source collection Summer. The
  destination has no product and its collection listing is missing, so phase 2 cannot
  look Summer up.
\<close>

definition shirt :: json where
  "shirt = JDict
     [(''id'', JInt 1), (''title'', JStr ''Shirt''),
      (''variants'', JList [JDict [(''id'', JInt 11), (''sku'', JStr ''SKU-1'')]])]"

definition summer :: json where
  "summer = JDict
     [(''id'', JInt 5), (''title'', JStr ''Summer''), (''body_html'', JStr ''<p>Hot</p>'')]"

definition source_with_shirt :: "(http_method \<times> piece list \<times> response) list" where
  "source_with_shirt =
     [shop_ok source_store,
      (GET, [Lit (base_url source_store), Lit ''/products.json''],
       Success (Some (JDict [(''products'', JList [shirt])]))),
      (GET, [Lit (base_url source_store), Lit ''/custom_collections.json''],
       Success (Some (JDict [(''custom_collections'', JList [summer])]))),
      (GET, [Lit (base_url source_store), Lit ''/collects.json?product_id='', Val (JInt 1),
             Lit ''&collection_id='', Val (JInt 5)],
       Success (Some (JDict [(''collects'', JList [JDict [(''id'', JInt 500)]])])))]"

definition created_shirt :: json where
  "created_shirt = JDict [(''id'', JInt 42), (''title'', JStr ''Shirt'')]"

definition empty_dest :: "(http_method \<times> piece list \<times> response) list" where
  "empty_dest =
     [shop_ok dest_store,
      (GET, [Lit (base_url dest_store), Lit ''/products.json''],
       Success (Some (JDict [(''products'', JList [])]))),
      (POST, [Lit (base_url dest_store), Lit ''/products.json''],
       Success (Some (JDict [(''product'', created_shirt)])))]"

definition no_collection_listing :: "(http_method \<times> piece list \<times> response) list" where
  "no_collection_listing = source_with_shirt @ empty_dest"

text \<open>A destination that has a product with SKU-1 under the identifier 42.\<close>

definition existing_shirt :: json where
  "existing_shirt = JDict
     [(''id'', JInt 42), (''title'', JStr ''Old shirt''),
      (''variants'', JList [JDict [(''id'', JInt 77), (''sku'', JStr ''SKU-1'')]])]"

definition dest_with_shirt :: "(http_method \<times> piece list \<times> response) list" where
  "dest_with_shirt =
     [shop_ok dest_store,
      (GET, [Lit (base_url dest_store), Lit ''/products.json''],
       Success (Some (JDict [(''products'', JList [existing_shirt])])))]"

definition update_accepted :: "(http_method \<times> piece list \<times> response) list" where
  "update_accepted =
     source_with_shirt @ dest_with_shirt @
     [(PUT, [Lit (base_url dest_store), Lit ''/products/'', Val (JInt 42), Lit ''.json''],
       Success (Some (JDict [(''product'', created_shirt)])))]"

definition update_rejected :: "(http_method \<times> piece list \<times> response) list" where
  "update_rejected =
     source_with_shirt @ dest_with_shirt @
     [(PUT, [Lit (base_url dest_store), Lit ''/products/'', Val (JInt 42), Lit ''.json''],
       StatusFailure 422)]"

text \<open>
  The destination accepts the update of product 42; the product in its answer has no
  identifier, or one that is a list.
\<close>

definition update_without_id :: "(http_method \<times> piece list \<times> response) list" where
  "update_without_id =
     source_with_shirt @ dest_with_shirt @
     [(PUT, [Lit (base_url dest_store), Lit ''/products/'', Val (JInt 42), Lit ''.json''],
       Success (Some (JDict [(''product'', JDict [(''title'', JStr ''Shirt'')])])))]"

definition update_with_list_id :: "(http_method \<times> piece list \<times> response) list" where
  "update_with_list_id =
     source_with_shirt @ dest_with_shirt @
     [(PUT, [Lit (base_url dest_store), Lit ''/products/'', Val (JInt 42), Lit ''.json''],
       Success (Some (JDict [(''product'',
          JDict [(''id'', JList [JInt 42]), (''title'', JStr ''Shirt'')])])))]"

text \<open>
  A destination that lists Hat with SKU-9 before the product with SKU-1, and accepts the
  update of the latter.
\<close>

definition hat :: json where
  "hat = JDict
     [(''id'', JInt 41), (''title'', JStr ''Hat''),
      (''variants'', JList [JDict [(''id'', JInt 76), (''sku'', JStr ''SKU-9'')]])]"

definition update_second_listed :: "(http_method \<times> piece list \<times> response) list" where
  "update_second_listed =
     source_with_shirt @
     [shop_ok dest_store,
      (GET, [Lit (base_url dest_store), Lit ''/products.json''],
       Success (Some (JDict [(''products'', JList [hat, existing_shirt])]))),
      (PUT, [Lit (base_url dest_store), Lit ''/products/'', Val (JInt 42), Lit ''.json''],
       Success (Some (JDict [(''product'', created_shirt)])))]"

text \<open>
  Destinations that accept the update of product 42 and list the given products: one
  with SKU-1 and no title, one with SKU-1 and no identifier, and one whose variants are
  \<^verbatim>\<open>null\<close>.
\<close>

definition dest_listing :: "json list \<Rightarrow> (http_method \<times> piece list \<times> response) list" where
  "dest_listing products =
     source_with_shirt @
     [shop_ok dest_store,
      (GET, [Lit (base_url dest_store), Lit ''/products.json''],
       Success (Some (JDict [(''products'', JList products)]))),
      (PUT, [Lit (base_url dest_store), Lit ''/products/'', Val (JInt 42), Lit ''.json''],
       Success (Some (JDict [(''product'', created_shirt)])))]"

definition untitled_shirt :: json where
  "untitled_shirt = JDict
     [(''id'', JInt 42),
      (''variants'', JList [JDict [(''id'', JInt 77), (''sku'', JStr ''SKU-1'')]])]"

definition shirt_without_id :: json where
  "shirt_without_id = JDict
     [(''title'', JStr ''Old shirt''),
      (''variants'', JList [JDict [(''id'', JInt 77), (''sku'', JStr ''SKU-1'')]])]"

definition broken :: json where
  "broken = JDict [(''id'', JInt 40), (''title'', JStr ''Broken''), (''variants'', JNone)]"

text \<open>Products that phase 1 skips.\<close>

definition bare_product :: json where
  "bare_product = JDict [(''id'', JInt 3), (''title'', JStr ''Bare''), (''variants'', JList [])]"

definition no_sku_product :: json where
  "no_sku_product = JDict
     [(''id'', JInt 4), (''title'', JStr ''Nameless''),
      (''variants'', JList [JDict [(''id'', JInt 41), (''price'', JStr ''5.00'')]])]"

text \<open>
  Two source products with the same SKU-1, the first in Summer, the second in Winter. The
  destination has one product with SKU-1 and accepts its update.
\<close>

definition shirt_copy :: json where
  "shirt_copy = JDict
     [(''id'', JInt 2), (''title'', JStr ''Shirt again''),
      (''variants'', JList [JDict [(''id'', JInt 21), (''sku'', JStr ''SKU-1'')]])]"

definition winter :: json where
  "winter = JDict [(''id'', JInt 6), (''title'', JStr ''Winter'')]"

definition same_sku_twice :: "(http_method \<times> piece list \<times> response) list" where
  "same_sku_twice =
     [shop_ok source_store,
      (GET, [Lit (base_url source_store), Lit ''/products.json''],
       Success (Some (JDict [(''products'', JList [shirt, shirt_copy])]))),
      (GET, [Lit (base_url source_store), Lit ''/custom_collections.json''],
       Success (Some (JDict [(''custom_collections'', JList [summer, winter])]))),
      (GET, [Lit (base_url source_store), Lit ''/collects.json?product_id='', Val (JInt 1),
             Lit ''&collection_id='', Val (JInt 5)],
       Success (Some (JDict [(''collects'', JList [JDict [(''id'', JInt 500)]])]))),
      (GET, [Lit (base_url source_store), Lit ''/collects.json?product_id='', Val (JInt 1),
             Lit ''&collection_id='', Val (JInt 6)],
       Success (Some (JDict [(''collects'', JList [])]))),
      (GET, [Lit (base_url source_store), Lit ''/collects.json?product_id='', Val (JInt 2),
             Lit ''&collection_id='', Val (JInt 5)],
       Success (Some (JDict [(''collects'', JList [])]))),
      (GET, [Lit (base_url source_store), Lit ''/collects.json?product_id='', Val (JInt 2),
             Lit ''&collection_id='', Val (JInt 6)],
       Success (Some (JDict [(''collects'', JList [JDict [(''id'', JInt 600)]])])))]
     @ dest_with_shirt @
     [(PUT, [Lit (base_url dest_store), Lit ''/products/'', Val (JInt 42), Lit ''.json''],
       Success (Some (JDict [(''product'', created_shirt)])))]"

text \<open>Destinations for phase 2: Summer is missing, its creation works or is refused.\<close>

definition summer_missing :: "(http_method \<times> piece list \<times> response) list" where
  "summer_missing =
     [shop_ok dest_store,
      (GET, [Lit (base_url dest_store), Lit ''/custom_collections.json''],
       Success (Some (JDict [(''custom_collections'', JList [])]))),
      (POST, [Lit (base_url dest_store), Lit ''/custom_collections.json''],
       Success (Some (JDict [(''custom_collection'',
          JDict [(''id'', JInt 9), (''title'', JStr ''Summer'')])]))),
      (POST, [Lit (base_url dest_store), Lit ''/collects.json''],
       Success (Some (JDict [(''collect'', JDict [(''id'', JInt 900)])])))]"

definition creation_refused :: "(http_method \<times> piece list \<times> response) list" where
  "creation_refused =
     [shop_ok dest_store,
      (GET, [Lit (base_url dest_store), Lit ''/custom_collections.json''],
       Success (Some (JDict [(''custom_collections'', JList [])]))),
      (POST, [Lit (base_url dest_store), Lit ''/custom_collections.json''], StatusFailure 422),
      (POST, [Lit (base_url dest_store), Lit ''/collects.json''],
       Success (Some (JDict [(''collect'', JDict [(''id'', JInt 900)])])))]"

text \<open>Summer is there, the association is refused.\<close>

definition association_refused :: "(http_method \<times> piece list \<times> response) list" where
  "association_refused =
     [shop_ok dest_store,
      (GET, [Lit (base_url dest_store), Lit ''/custom_collections.json''],
       Success (Some (JDict [(''custom_collections'',
          JList [JDict [(''id'', JInt 9), (''title'', JStr ''Summer'')]])]))),
      (POST, [Lit (base_url dest_store), Lit ''/collects.json''], StatusFailure 422)]"

text \<open>The fixture product as \<^verbatim>\<open>response.json()\<close> builds it in an empty store.\<close>

definition sample_ref :: val where
  "sample_ref = fst (load sample_product [])"

definition sample_heap :: heap where
  "sample_heap = snd (load sample_product [])"

text \<open>A product whose first variant is a list and whose second is a dict with an identifier.\<close>

definition mixed_product :: json where
  "mixed_product = JDict
     [(''id'', JInt 7), (''title'', JStr ''Mixed''),
      (''variants'', JList [JList [JInt 1, JInt 2],
                            JDict [(''id'', JInt 1), (''sku'', JStr ''A'')]])]"

definition mixed_ref :: val where
  "mixed_ref = fst (load mixed_product [])"

definition mixed_heap :: heap where
  "mixed_heap = snd (load mixed_product [])"

section \<open>Notions the statements use\<close>

text \<open>\<open>m\<close> is the product of some response to a write request.\<close>

definition wrote :: "'s transport \<Rightarrow> json \<Rightarrow> bool" where
  "wrote send m =
     (\<exists>rq s. req_method rq \<noteq> GET \<and> product_of_response (fst (send rq s)) = Inr m)"



text \<open>The sum the final report is checked against.\<close>

definition counted :: "'s migration \<Rightarrow> int" where
  "counted g = created_count g + updated_count g + skipped_count g + error_count g"







text \<open>The messages logged at a level, in order.\<close>

definition logged_at :: "level \<Rightarrow> 's world \<Rightarrow> piece list list" where
  "logged_at lvl w = map snd (filter (\<lambda>entry. fst entry = lvl) (logged w))"

text \<open>The JSON bodies of the requests sent with a method to a URL, in order.\<close>

definition bodies_sent :: "http_method \<Rightarrow> piece list \<Rightarrow> 's world \<Rightarrow> json option list" where
  "bodies_sent m u w =
     map req_json (filter (\<lambda>rq. req_method rq = m \<and> req_url rq = u) (sent w))"

text \<open>
  \<open>v\<close> refers to a dict that has none of the keys \<open>K\<close>; a step from \<open>h\<close> to \<open>h'\<close> keeps
  that of every value; every step a computation can make is in the relation \<open>R\<close>.
\<close>

definition lacks :: "string set \<Rightarrow> heap \<Rightarrow> val \<Rightarrow> bool" where
  "lacks K h v = (\<exists>d. deref h v = Some (ODict d) \<and> fst ` set d \<inter> K = {})"

definition keeps_lacking :: "string set \<Rightarrow> heap \<Rightarrow> heap \<Rightarrow> bool" where
  "keeps_lacking K h h' = (\<forall>v. lacks K h v \<longrightarrow> lacks K h' v)"

definition relates :: "('st \<Rightarrow> 'st \<Rightarrow> bool) \<Rightarrow> ('st, 'a) io \<Rightarrow> bool" where
  "relates R m = (\<forall>g r g'. m g = (r, g') \<longrightarrow> R g g')"

text \<open>
  The message of the handler that closes the processing of a collection in phase 2
  (\<^verbatim>\<open>logger.error(f"Error processing collection ...")\<close>), any other message, and the number
  of such messages in the log.
\<close>

definition is_collection_error :: "level \<times> piece list \<Rightarrow> bool" where
  "is_collection_error entry =
     (fst entry = ERROR \<and> take 1 (snd entry) = [Lit ''Error processing collection ''])"

definition other_message :: "level \<times> piece list \<Rightarrow> bool" where
  "other_message entry = (\<not> is_collection_error entry)"







section \<open>Properties of the payload-shaping transform\<close>

lemma prepare_sample_product: "prepare_product_data sample_product = Inr sample_payload"
  by (simp add: prepare_product_data_def sample_product_def sample_payload_def allowed_fields_def
      keys_to_remove_def clean_variants_field_def clean_images_field_def)

lemma pop_keys_dict:
  "pop_keys keys (JDict d) = Inr (JDict (filter (\<lambda>kv. fst kv \<notin> set keys) d))"
proof (induction keys arbitrary: d)
  case Nil
  show ?case by simp
next
  case (Cons key keys)
  have "filter (\<lambda>kv. fst kv \<notin> set keys) (AList.delete key d)
        = filter (\<lambda>kv. fst kv \<notin> set (key # keys)) d"
    by (induction d) (auto simp: AList.delete_eq)
  with Cons show ?case by simp
qed

lemma pop_keys_result:
  assumes "pop_keys (key # keys) variant = Inr variant'"
  shows "\<exists>d. variant = JDict d \<and> variant' = JDict (filter (\<lambda>kv. fst kv \<notin> set (key # keys)) d)"
proof (cases variant)
  case (JDict d)
  with assms pop_keys_dict [of "key # keys" d] show ?thesis by simp
qed (use assms in simp_all)

lemma clean_variants_result:
  assumes "clean_variants items = Inr items'"
  shows "\<forall>v \<in> set items'. isinstance_dict v \<and> set (dict_keys v) \<inter> set keys_to_remove = {}"
  using assms
proof (induction items arbitrary: items')
  case Nil
  then show ?case by simp
next
  case (Cons variant rest)
  from Cons.prems obtain variant' rest' where
    v: "pop_keys keys_to_remove variant = Inr variant'" and
    r: "clean_variants rest = Inr rest'" and
    i: "items' = variant' # rest'"
    by (auto split: sum.splits)
  from v obtain d where "variant' = JDict (filter (\<lambda>kv. fst kv \<notin> set keys_to_remove) d)"
    using pop_keys_result [of "''admin_graphql_api_id''" "tl keys_to_remove" variant variant']
    by (auto simp: keys_to_remove_def)
  then have "isinstance_dict variant' \<and> set (dict_keys variant') \<inter> set keys_to_remove = {}"
    by (auto simp: dict_keys_def)
  with Cons.IH [OF r] i show ?case by simp
qed

lemma clean_images_result:
  assumes "clean_images items = Inr cleaned_images"
  shows "\<forall>i \<in> set cleaned_images. \<exists>src alt. i = JDict [(''src'', src), (''alt'', alt)]"
  using assms
proof (induction items arbitrary: cleaned_images)
  case Nil
  then show ?case by simp
next
  case (Cons img rest)
  then show ?case
    by (auto split: sum.splits if_splits)
qed

lemma update_present_keys:
  "map_of d key = Some x \<Longrightarrow> map fst (AList.update key v d) = map fst d"
  by (induction d) (auto split: if_splits)

lemma update_absent_keys:
  "map_of d key = None \<Longrightarrow> map fst (AList.update key v d) = map fst d @ [key]"
  by (induction d) (auto split: if_splits)

lemma map_of_update_same: "map_of (AList.update key v d) key = Some v"
  by (simp add: AList.update_conv')

lemma map_of_update_other: "k \<noteq> key \<Longrightarrow> map_of (AList.update key v d) k = map_of d k"
  by (simp add: AList.update_conv')

lemma clean_variants_field_keys:
  assumes "clean_variants_field d = Inr d'"
  shows "map fst d' = map fst d"
  using assms
  by (auto simp: clean_variants_field_def update_present_keys
      split: option.splits sum.splits json.splits)

lemma clean_images_field_keys:
  assumes "clean_images_field d = Inr d'"
  shows "map fst d' = map fst d"
  using assms
  by (auto simp: clean_images_field_def update_present_keys split: option.splits sum.splits)

lemma clean_variants_field_variants:
  assumes "clean_variants_field d = Inr d'"
  shows "\<forall>v \<in> set (payload_items (JDict d') ''variants'').
           isinstance_dict v \<and> set (dict_keys v) \<inter> set keys_to_remove = {}"
proof (cases "map_of d ''variants''")
  case None
  with assms show ?thesis by (simp add: clean_variants_field_def payload_items_def)
next
  case (Some variants)
  with assms obtain items items' where
    it: "py_iter variants = Inr items" and cl: "clean_variants items = Inr items'" and
    d': "d' = (case variants of JList xs \<Rightarrow> AList.update ''variants'' (JList items') d | _ \<Rightarrow> d)"
    by (auto simp: clean_variants_field_def split: sum.splits)
  show ?thesis
  proof (cases variants)
    case (JList xs)
    with d' have "payload_items (JDict d') ''variants'' = items'"
      by (simp add: payload_items_def map_of_update_same)
    with clean_variants_result [OF cl] show ?thesis by simp
  next
    case (JDict kvs)
    with it cl have "kvs = []"
      by (cases kvs) (auto simp: keys_to_remove_def split: sum.splits)
    with JDict d' Some show ?thesis by (simp add: payload_items_def)
  next
    case (JStr s)
    with it cl have "s = []"
      by (cases s) (auto simp: keys_to_remove_def split: sum.splits)
    with JStr d' Some show ?thesis by (simp add: payload_items_def)
  qed (use it in simp_all)
qed

lemma clean_images_field_variants:
  assumes "clean_images_field d = Inr d'"
  shows "payload_items (JDict d') ''variants'' = payload_items (JDict d) ''variants''"
  using assms
  by (auto simp: clean_images_field_def payload_items_def map_of_update_other
      split: option.splits sum.splits)

lemma clean_images_field_images:
  assumes "clean_images_field d = Inr d'"
  shows "\<forall>i \<in> set (payload_items (JDict d') ''images'').
           \<exists>src alt. i = JDict [(''src'', src), (''alt'', alt)]"
proof (cases "map_of d ''images''")
  case None
  with assms show ?thesis by (simp add: clean_images_field_def payload_items_def)
next
  case (Some images)
  with assms obtain items cleaned_images where
    cl: "clean_images items = Inr cleaned_images" and
    d': "d' = AList.update ''images'' (JList cleaned_images) d"
    by (auto simp: clean_images_field_def split: sum.splits)
  from d' have "payload_items (JDict d') ''images'' = cleaned_images"
    by (simp add: payload_items_def map_of_update_same)
  with clean_images_result [OF cl] show ?thesis by simp
qed

text \<open>
  C5. Whenever the transform returns a payload: the payload is a dict whose keys are
  among title, body_html, vendor, product_type, handle, status, variants, images and
  options; every variant in it is a dict without the keys id, product_id, image_id,
  inventory_item_id, old_inventory_quantity and requires_shipping (nor
  admin_graphql_api_id); every image in it is a dict with exactly the keys src and alt.
\<close>

theorem prepare_product_data_payload:
  assumes "prepare_product_data product_data = Inr payload"
  shows "isinstance_dict payload
       \<and> set (dict_keys payload) \<subseteq>
           {''title'', ''body_html'', ''vendor'', ''product_type'', ''handle'', ''status'',
            ''variants'', ''images'', ''options''}
       \<and> (\<forall>v \<in> set (payload_items payload ''variants'').
             isinstance_dict v \<and>
             set (dict_keys v) \<inter>
               {''id'', ''product_id'', ''image_id'', ''inventory_item_id'',
                ''old_inventory_quantity'', ''requires_shipping'', ''admin_graphql_api_id''} = {})
       \<and> (\<forall>i \<in> set (payload_items payload ''images'').
             isinstance_dict i \<and> dict_keys i = [''src'', ''alt''])"
proof -
  from assms obtain items d1 d2 where
    p: "product_data = JDict items" and
    v: "clean_variants_field (filter (\<lambda>kv. fst kv \<in> set allowed_fields) items) = Inr d1" and
    i: "clean_images_field d1 = Inr d2" and
    r: "payload = JDict d2"
    by (auto simp: prepare_product_data_def split: json.splits sum.splits)
  have "map fst d2 = map fst (filter (\<lambda>kv. fst kv \<in> set allowed_fields) items)"
    using clean_variants_field_keys [OF v] clean_images_field_keys [OF i] by simp
  then have "set (map fst d2) \<subseteq> set allowed_fields"
    by auto
  then have keys: "set (dict_keys payload) \<subseteq>
      {''title'', ''body_html'', ''vendor'', ''product_type'', ''handle'', ''status'',
       ''variants'', ''images'', ''options''}"
    using r by (simp add: dict_keys_def allowed_fields_def)
  have "\<forall>v \<in> set (payload_items (JDict d2) ''variants'').
           isinstance_dict v \<and> set (dict_keys v) \<inter> set keys_to_remove = {}"
    using clean_variants_field_variants [OF v] clean_images_field_variants [OF i] by simp
  then have variants: "\<forall>v \<in> set (payload_items payload ''variants'').
      isinstance_dict v \<and>
      set (dict_keys v) \<inter>
        {''id'', ''product_id'', ''image_id'', ''inventory_item_id'',
         ''old_inventory_quantity'', ''requires_shipping'', ''admin_graphql_api_id''} = {}"
    using r by (simp add: keys_to_remove_def insert_commute)
  have images: "\<forall>i \<in> set (payload_items payload ''images'').
      isinstance_dict i \<and> dict_keys i = [''src'', ''alt'']"
    using clean_images_field_images [OF i] r by (fastforce simp: dict_keys_def)
  from r keys variants images show ?thesis by simp
qed

theorem prepare_product_data_payload_witness:
  "prepare_product_data sample_product = Inr sample_payload
   \<and> set (dict_keys sample_payload) \<subseteq>
       {''title'', ''body_html'', ''vendor'', ''product_type'', ''handle'', ''status'',
        ''variants'', ''images'', ''options''}
   \<and> payload_items sample_payload ''variants'' =
       [JDict [(''sku'', JStr ''TEST-SKU-1''), (''price'', JStr ''10.00''),
               (''inventory_quantity'', JInt 10)],
        JDict [(''sku'', JStr ''TEST-SKU-2''), (''price'', JStr ''15.00''),
               (''inventory_quantity'', JInt 5)]]
   \<and> map dict_keys (payload_items sample_payload ''images'') =
       [[''src'', ''alt''], [''src'', ''alt'']]"
  using prepare_product_data_payload [OF prepare_sample_product] prepare_sample_product
  by (simp add: sample_payload_def payload_items_def dict_keys_def)

section \<open>Properties of the client\<close>

lemmas io_defs = io_return_def io_raise_def io_lift_def io_bind_def io_then_def io_catch_def
  io_modify_def log_def client_send_def in_world_def

lemmas client_defs = validate_credentials_def get_products_def create_product_def
  post_product_def put_product_def update_product_def get_product_by_sku_def get_collections_def get_collection_by_title_def
  create_collection_def get_product_collections_def add_product_to_collection_def
  product_of_response_def dict_has_key_def prepare_product_data_def clean_variants_field_def
  clean_images_field_def allowed_fields_def keys_to_remove_def

lemmas orchestrator_defs = skip_product_def fetch_source_collections_def write_product_def
  record_collections_def migrate_product_def find_or_create_collection_def
  associate_product_def migrate_collection_def migrate_all_collections_def
  log_final_statistics_def migrate_products_def reset_counts_def py_setitem_def

lemmas fixture_defs = answer_from_def source_store_def dest_store_def idle_def shop_ok_def
  shirt_def summer_def source_with_shirt_def created_shirt_def empty_dest_def
  no_collection_listing_def start_def orphan_listing_def existing_shirt_def
  dest_with_shirt_def update_accepted_def update_rejected_def bare_product_def
  no_sku_product_def shirt_copy_def winter_def same_sku_twice_def summer_missing_def
  creation_refused_def association_refused_def update_without_id_def
  update_with_list_id_def hat_def update_second_listed_def dest_listing_def
  untitled_shirt_def shirt_without_id_def broken_def

lemmas eval_defs = fixture_defs client_defs orchestrator_defs io_defs

lemma pair_snd_eq: "(p = (a, snd p)) = (fst p = a)"
  by (cases p) auto

text \<open>
  C8. \<^verbatim>\<open>validate_credentials\<close> never raises: it returns true when the read of
  \<^verbatim>\<open>/shop.json\<close> passes \<^verbatim>\<open>raise_for_status\<close>, and false when the request fails in transport
  or the status check raises, whatever the status code.
\<close>

theorem validate_credentials_never_raises:
  "fst (validate_credentials send self w) =
     Inr (case fst (send \<lparr>req_method = GET, req_url = [Lit (base_url self), Lit ''/shop.json''],
                          req_params = [], req_headers = headers self, req_json = None\<rparr> (net w)) of
            Success body \<Rightarrow> True
          | StatusFailure code \<Rightarrow> False
          | TransportFailure \<Rightarrow> False)"
  by (simp add: validate_credentials_def io_defs split: prod.splits response.splits)

lemma in_worldE:
  assumes "in_world m g = (r, g')"
  obtains w' where "m (world g) = (r, w')" and "g' = g\<lparr>world := w'\<rparr>"
  using assms by (auto simp: in_world_def split: prod.splits)

lemma update_product_wrote:
  assumes "update_product send self product_id product_data w = (Inr m, w')"
  shows "wrote send m"
proof -
  from assms obtain rq resp s' where
    "req_method rq = PUT" "send rq (net w) = (resp, s')" "product_of_response resp = Inr m"
    by (auto simp: update_product_def put_product_def io_defs split: sum.splits prod.splits response.splits if_splits)
      (metis request.select_convs(1))+
  then have "req_method rq \<noteq> GET \<and> product_of_response (fst (send rq (net w))) = Inr m" by simp
  then show ?thesis unfolding wrote_def by blast
qed

lemma create_product_wrote:
  assumes "create_product send self product_data w = (Inr m, w')"
  shows "wrote send m"
proof -
  from assms obtain rq resp s' where
    "req_method rq = POST" "send rq (net w) = (resp, s')" "product_of_response resp = Inr m"
    by (auto simp: create_product_def post_product_def io_defs split: sum.splits prod.splits response.splits if_splits)
      (metis request.select_convs(1))+
  then have "req_method rq \<noteq> GET \<and> product_of_response (fst (send rq (net w))) = Inr m" by simp
  then show ?thesis unfolding wrote_def by blast
qed

lemma update_product_truthy:
  assumes "update_product send self product_id product_data w = (Inr m, w')"
  shows "truthy m"
proof -
  from assms obtain t where "py_index m ''title'' = Inr t"
    by (auto simp: update_product_def put_product_def io_defs split: sum.splits prod.splits response.splits if_splits)
  then show ?thesis by (cases m) (auto split: option.splits)
qed

lemma create_product_truthy:
  assumes "create_product send self product_data w = (Inr m, w')"
  shows "truthy m"
proof -
  from assms obtain t where "py_index m ''title'' = Inr t"
    by (auto simp: create_product_def post_product_def io_defs split: sum.splits prod.splits response.splits if_splits)
  then show ?thesis by (cases m) (auto split: option.splits)
qed























text \<open>
  C3. The code does not do what the claim says. For a listing with an entry that has no
  identifier, \<^verbatim>\<open>get_products\<close> logs the warning and returns the listing as it came, the entry
  included.
\<close>

theorem get_products_keeps_invalid_entries:
  "fst (get_products (answer_from orphan_listing) source_store 250 idle)
     = Inr (JList [JDict [(''title'', JStr ''Orphan'')],
                   JDict [(''id'', JInt 1), (''title'', JStr ''Shirt'')]])
   \<and> logged_at WARNING (snd (get_products (answer_from orphan_listing) source_store 250 idle))
     = [[Lit ''Found invalid product data in response'']]"
  by (simp add: eval_defs logged_at_def)

text \<open>Whatever the stores answer, the value returned is the whole \<open>products\<close> entry of a response.\<close>

lemma get_products_unfiltered:
  assumes "get_products send self limit w = (Inr products, w')"
  shows "\<exists>rq s data. response_json (fst (send rq s)) = Inr data
           \<and> py_index data ''products'' = Inr products"
proof -
  from assms obtain rq resp s s' data where
    "send rq s = (resp, s')" "response_json resp = Inr data"
    "py_index data ''products'' = Inr products"
    by (auto simp: get_products_def io_return_def io_raise_def io_lift_def io_bind_def
        io_then_def io_catch_def client_send_def
        split: sum.splits prod.splits if_splits response.splits)
  then have "response_json (fst (send rq s)) = Inr data \<and> py_index data ''products'' = Inr products"
    by simp
  then show ?thesis by blast
qed

section \<open>Properties of the orchestrator\<close>




lemma fetch_source_collections_total:
  assumes "product = JDict d"
  shows "\<exists>cs w'. fetch_source_collections send source_client product g = (Inr cs, g\<lparr>world := w'\<rparr>)"
  using assms
  by (auto simp: fetch_source_collections_def io_defs split: sum.splits prod.splits option.splits)

lemma write_product_effect:
  assumes "product = JDict d"
    and "write_product send dest_client product sku existing g = (r, g')"
  shows "\<exists>m. r = Inr m \<and> (truthy m \<longrightarrow> wrote send m)
       \<and> counted g' = counted g + 1
       \<and> skipped_count g' = skipped_count g
       \<and> product_collections g' = product_collections g
       \<and> collection_count g' = collection_count g"
proof (cases "truthy existing")
  case True
  show ?thesis
  proof (cases "py_index existing ''id''")
    case (Inl e)
    with True assms show ?thesis by (auto simp add: write_product_def io_defs counted_def)
  next
    case (Inr existing_id)
    obtain r1 w1 where u: "update_product send dest_client existing_id product (world g) = (r1, w1)"
      by (cases "update_product send dest_client existing_id product (world g)")
    show ?thesis
    proof (cases r1)
      case (Inl e)
      with True assms Inr u show ?thesis by (auto simp add: write_product_def io_defs counted_def)
    next
      case m: (Inr m)
      with u update_product_wrote have "wrote send m" by blast
      with True assms Inr u m show ?thesis by (auto simp add: write_product_def io_defs counted_def)
    qed
  qed
next
  case False
  obtain r1 w1 where u: "create_product send dest_client product (world g) = (r1, w1)"
    by (cases "create_product send dest_client product (world g)")
  show ?thesis
  proof (cases r1)
    case (Inl e)
    with False assms u show ?thesis by (auto simp add: write_product_def io_defs counted_def)
  next
    case m: (Inr m)
    with u create_product_wrote have "wrote send m" by blast
    with False assms u m show ?thesis by (auto simp add: write_product_def io_defs counted_def)
  qed
qed

















lemma skip_product_effect:
  assumes "py_get product ''title'' (JStr ''Unknown'') = Inr title"
  shows "skip_product product reason g =
     (Inr (), g\<lparr>world := (world g)\<lparr>logged := logged (world g) @
                    [(WARNING, [Lit ''Skipping product '', Val title, Lit reason])]\<rparr>,
               skipped_count := skipped_count g + 1,
               migrate_task := migrate_task g + 1\<rparr>)"
  using assms by (simp add: skip_product_def io_defs)

text \<open>
  C7. A product whose variants are empty (or missing), or whose first variant has no SKU
  (none, or an empty one), is skipped: the step sends no request at all, so neither a
  create nor an update, adds one to the skipped count and leaves the other counts and
  the recording alone, and the loop goes on with the next product.
\<close>

theorem skip_without_sku:
  assumes "py_get product ''variants'' (JList []) = Inr variants"
    and "\<not> truthy variants \<or>
         (\<exists>v sku. py_first variants = Inr v \<and> py_get v ''sku'' JNone = Inr sku \<and> \<not> truthy sku)"
  shows "\<exists>g'. migrate_product send source_client dest_client product g = (Inr (), g')
       \<and> sent (world g') = sent (world g) \<and> net (world g') = net (world g)
       \<and> skipped_count g' = skipped_count g + 1
       \<and> created_count g' = created_count g \<and> updated_count g' = updated_count g
       \<and> error_count g' = error_count g
       \<and> product_collections g' = product_collections g
       \<and> migrate_each send source_client dest_client (product # rest) g =
           migrate_each send source_client dest_client rest g'"
proof -
  from assms(1) obtain d where d: "product = JDict d" by (cases product) simp_all
  then obtain title where t: "py_get product ''title'' (JStr ''Unknown'') = Inr title" by simp
  from assms show ?thesis
    by (auto simp: migrate_product_def skip_product_effect [OF t] io_defs)
qed

theorem skip_without_sku_witness:
  "fst (migrate_product (answer_from []) source_store dest_store bare_product (start idle)) = Inr ()
   \<and> sent (world (snd (migrate_product (answer_from []) source_store dest_store bare_product
        (start idle)))) = []
   \<and> skipped_count (snd (migrate_product (answer_from []) source_store dest_store bare_product
        (start idle))) = 1
   \<and> fst (migrate_product (answer_from []) source_store dest_store no_sku_product (start idle))
        = Inr ()
   \<and> sent (world (snd (migrate_product (answer_from []) source_store dest_store no_sku_product
        (start idle)))) = []
   \<and> skipped_count (snd (migrate_product (answer_from []) source_store dest_store no_sku_product
        (start idle))) = 1"
proof -
  have b: "py_get bare_product ''variants'' (JList []) = Inr (JList [])"
    by (simp add: bare_product_def)
  have n: "py_get no_sku_product ''variants'' (JList [])
      = Inr (JList [JDict [(''id'', JInt 41), (''price'', JStr ''5.00'')]])"
    by (simp add: no_sku_product_def)
  have nb: "\<not> truthy (JList []) \<or>
      (\<exists>v sku. py_first (JList []) = Inr v \<and> py_get v ''sku'' JNone = Inr sku \<and> \<not> truthy sku)"
    by simp
  have nn: "\<not> truthy (JList [JDict [(''id'', JInt 41), (''price'', JStr ''5.00'')]]) \<or>
      (\<exists>v sku. py_first (JList [JDict [(''id'', JInt 41), (''price'', JStr ''5.00'')]]) = Inr v
         \<and> py_get v ''sku'' JNone = Inr sku \<and> \<not> truthy sku)"
    by simp
  from skip_without_sku [OF b nb, of "answer_from []" source_store dest_store "start idle" "[]"]
  obtain g1 where
    "migrate_product (answer_from []) source_store dest_store bare_product (start idle)
       = (Inr (), g1)"
    "sent (world g1) = sent (world (start idle))"
    "skipped_count g1 = skipped_count (start idle) + 1"
    by blast
  moreover
  from skip_without_sku [OF n nn, of "answer_from []" source_store dest_store "start idle" "[]"]
  obtain g2 where
    "migrate_product (answer_from []) source_store dest_store no_sku_product (start idle)
       = (Inr (), g2)"
    "sent (world g2) = sent (world (start idle))"
    "skipped_count g2 = skipped_count (start idle) + 1"
    by blast
  ultimately show ?thesis by (simp add: start_def idle_def)
qed
























lemma other_log [simp]:
  "other_message (lvl, Lit s # rest) = (lvl = ERROR \<longrightarrow> s \<noteq> ''Error processing collection '')"
  by (simp add: other_message_def is_collection_error_def)

































lemma dict_set_present:
  assumes "dict_lookup d key = Some earlier"
  shows "dict_lookup (dict_set d key v) key = Some v \<and> map fst (dict_set d key v) = map fst d"
  using assms by (induction d) (auto split: if_splits)

text \<open>
  C10. Phase 1 records under the identifier of the product the write returned. When a
  product with a non-empty list of source collections is written and the write returns a
  product under whose identifier an earlier product was recorded, the recording keeps
  that one key and holds the later list only: the earlier list is gone, the step logs
  nothing after the write and counts no error.
\<close>

theorem later_recording_overwrites:
  assumes vs: "py_get product ''variants'' (JList []) = Inr variants" and tv: "truthy variants"
    and fv: "py_first variants = Inr first_variant"
    and sk: "py_get first_variant ''sku'' JNone = Inr sku" and ts: "truthy sku"
    and f: "fetch_source_collections send source_client product g = (Inr cs, ga)"
    and ne: "cs \<noteq> []"
    and l: "in_world (get_product_by_sku send dest_client sku) ga = (Inr existing, gb)"
    and w: "write_product send dest_client product sku existing gb = (Inr m, gc)"
    and tm: "truthy m"
    and i: "py_index m ''id'' = Inr i" and h: "hashable i"
    and e: "dict_lookup (product_collections g) i = Some earlier"
  shows "\<exists>g'. migrate_product send source_client dest_client product g = (Inr (), g')
       \<and> product_collections g' = dict_set (product_collections g) i cs
       \<and> dict_lookup (product_collections g') i = Some cs
       \<and> map fst (product_collections g') = map fst (product_collections g)
       \<and> logged (world g') = logged (world gc)
       \<and> error_count g' = error_count gc"
proof -
  from vs obtain d where d: "product = JDict d" by (cases product) simp_all
  from fetch_source_collections_total [OF d, of send source_client g] f
  obtain w1 where ga: "ga = g\<lparr>world := w1\<rparr>" by auto
  from l ga obtain w2 where gb: "gb = g\<lparr>world := w2\<rparr>"
    by (auto elim!: in_worldE)
  from write_product_effect [OF d w] gb have pc: "product_collections gc = product_collections g"
    by simp
  from tm ne i h have rc: "record_collections m cs gc
      = (Inr (), gc\<lparr>product_collections := dict_set (product_collections gc) i cs\<rparr>)"
    by (simp add: record_collections_def py_setitem_def io_defs)
  from vs tv fv sk ts f l w rc have
    "migrate_product send source_client dest_client product g
       = (Inr (), gc\<lparr>product_collections := dict_set (product_collections gc) i cs,
                      migrate_task := migrate_task gc + 1\<rparr>)"
    by (simp add: migrate_product_def io_bind_def io_then_def io_catch_def io_lift_def
        io_modify_def)
  with pc dict_set_present [OF e, of cs] show ?thesis by simp
qed

theorem later_recording_overwrites_witness:
  "product_collections
     (snd (migrate_product (answer_from same_sku_twice) source_store dest_store shirt
        (start idle))) = [(JInt 42, [summer])]
   \<and> product_collections
       (snd (migrate_product (answer_from same_sku_twice) source_store dest_store shirt_copy
          (snd (migrate_product (answer_from same_sku_twice) source_store dest_store shirt
             (start idle))))) = [(JInt 42, [winter])]"
proof -
  let ?T = "answer_from same_sku_twice :: unit transport"
  define g where "g = snd (migrate_product ?T source_store dest_store shirt (start idle))"
  have pc: "product_collections g = [(JInt 42, [summer])]"
    unfolding g_def by (simp add: eval_defs)
  let ?f = "fetch_source_collections ?T source_store shirt_copy g"
  let ?l = "in_world (get_product_by_sku ?T dest_store (JStr ''SKU-1'')) (snd ?f)"
  let ?w = "write_product ?T dest_store shirt_copy (JStr ''SKU-1'') existing_shirt (snd ?l)"
  have f: "?f = (Inr [winter], snd ?f)"
    unfolding pair_snd_eq by (simp add: eval_defs)
  have l: "?l = (Inr existing_shirt, snd ?l)"
    unfolding pair_snd_eq by (simp add: eval_defs)
  have w: "?w = (Inr created_shirt, snd ?w)"
    unfolding pair_snd_eq by (simp add: eval_defs)
  have vs: "py_get shirt_copy ''variants'' (JList [])
      = Inr (JList [JDict [(''id'', JInt 21), (''sku'', JStr ''SKU-1'')]])"
    by (simp add: shirt_copy_def)
  have tv: "truthy (JList [JDict [(''id'', JInt 21), (''sku'', JStr ''SKU-1'')]])" by simp
  have fv: "py_first (JList [JDict [(''id'', JInt 21), (''sku'', JStr ''SKU-1'')]])
      = Inr (JDict [(''id'', JInt 21), (''sku'', JStr ''SKU-1'')])" by simp
  have sk: "py_get (JDict [(''id'', JInt 21), (''sku'', JStr ''SKU-1'')]) ''sku'' JNone
      = Inr (JStr ''SKU-1'')" by simp
  have ts: "truthy (JStr ''SKU-1'')" by simp
  have ne: "[winter] \<noteq> []" by simp
  have tm: "truthy created_shirt" by (simp add: created_shirt_def)
  have i: "py_index created_shirt ''id'' = Inr (JInt 42)" by (simp add: created_shirt_def)
  have h: "hashable (JInt 42)" by simp
  have e: "dict_lookup (product_collections g) (JInt 42) = Some [summer]"
    by (simp add: pc)
  from later_recording_overwrites [OF vs tv fv sk ts f ne l w tm i h e]
  obtain g' where
    "migrate_product ?T source_store dest_store shirt_copy g = (Inr (), g')"
    "product_collections g' = dict_set (product_collections g) (JInt 42) [winter]"
    by blast
  then have "product_collections (snd (migrate_product ?T source_store dest_store shirt_copy g))
      = [(JInt 42, [winter])]"
    by (simp add: pc)
  with pc show ?thesis by (simp add: g_def)
qed

text \<open>
  C1. The code does not do what the claim says. The orchestrator passes the whole dict it
  built (title, body_html, published) as the \<^verbatim>\<open>title\<close> argument of \<^verbatim>\<open>create_collection\<close>: for the
  source collection Summer with a description and no destination collection of that
  title, the one creation request carries that dict as the title and an empty body.
\<close>

theorem created_collection_title_is_a_dict:
  "bodies_sent POST [Lit (base_url dest_store), Lit ''/custom_collections.json'']
     (world (snd (migrate_collection (answer_from summer_missing) dest_store (JInt 42) summer
        (start idle))))
   = [Some (JDict [(''custom_collection'',
        JDict [(''title'',
                JDict [(''title'', JStr ''Summer''), (''body_html'', JStr ''<p>Hot</p>''),
                       (''published'', JBool True)]),
               (''body_html'', JStr [])])])]"
  by (simp add: eval_defs bodies_sent_def)

text \<open>
  C2. The code does not do what the claim says about the error count. When the creation
  of the missing collection is refused, the association is not attempted, and when the
  association is refused the loop goes on, but in both cases the error count stays 0:
  the two inner handlers log and do not count.
\<close>

theorem failures_in_phase_two_not_counted:
  "error_count (snd (migrate_collection (answer_from creation_refused) dest_store (JInt 42)
      summer (start idle))) = 0
   \<and> bodies_sent POST [Lit (base_url dest_store), Lit ''/collects.json'']
       (world (snd (migrate_collection (answer_from creation_refused) dest_store (JInt 42)
          summer (start idle)))) = []
   \<and> error_count (snd (migrate_collection (answer_from association_refused) dest_store
        (JInt 42) summer (start idle))) = 0"
  by (simp add: eval_defs bodies_sent_def)

lemma failures_in_phase_two_logged:
  "last (logged_at ERROR (world (snd (migrate_collection (answer_from creation_refused)
      dest_store (JInt 42) summer (start idle)))))
     = [Lit ''Failed to create collection '', Val (JStr ''Summer''), Lit '': '',
        Exc (HTTPStatusError 422)]
   \<and> last (logged_at ERROR (world (snd (migrate_collection (answer_from association_refused)
        dest_store (JInt 42) summer (start idle)))))
     = [Lit ''Failed to add product '', Val (JInt 42), Lit '' to collection '',
        Val (JStr ''Summer''), Lit '': '', Exc (HTTPStatusError 422)]"
  by (simp add: eval_defs logged_at_def)

section \<open>Properties of the writes on shared objects\<close>

lemma relatesD: "relates R m \<Longrightarrow> m g = (r, g') \<Longrightarrow> R g g'"
  by (simp add: relates_def)

lemma relates_pure:
  assumes "\<And>g. R g g"
  shows "relates R (io_return x)" and "relates R (io_raise e)" and "relates R (io_lift r)"
  using assms by (simp_all add: relates_def io_return_def io_raise_def io_lift_def)

lemma relates_bind:
  assumes t: "\<And>a b c. R a b \<Longrightarrow> R b c \<Longrightarrow> R a c"
    and m: "relates R m" and f: "\<And>x. relates R (f x)"
  shows "relates R (io_bind m f)"
  unfolding relates_def
proof (intro allI impI)
  fix g r g'
  assume run: "io_bind m f g = (r, g')"
  obtain r1 g1 where m1: "m g = (r1, g1)" by (cases "m g")
  from relatesD [OF m m1] have R1: "R g g1" .
  show "R g g'"
  proof (cases r1)
    case (Inl e)
    with run m1 R1 show ?thesis by (simp add: io_bind_def)
  next
    case (Inr x)
    with run m1 have "f x g1 = (r, g')" by (simp add: io_bind_def)
    from relatesD [OF f this] R1 t show ?thesis by blast
  qed
qed

lemma relates_then:
  assumes "\<And>a b c. R a b \<Longrightarrow> R b c \<Longrightarrow> R a c" and "relates R m" and "relates R n"
  shows "relates R (io_then m n)"
  unfolding io_then_def using assms by (intro relates_bind)

lemma keeps_lacking_refl: "keeps_lacking K h h"
  by (simp add: keeps_lacking_def)

lemma keeps_lacking_trans:
  "keeps_lacking K a b \<Longrightarrow> keeps_lacking K b c \<Longrightarrow> keeps_lacking K a c"
  by (simp add: keeps_lacking_def)

lemma lacks_append: "lacks K h v \<Longrightarrow> lacks K (h @ [ob]) v"
  by (cases v) (auto simp: lacks_def nth_append split: if_splits)

lemma reads_keep:
  "relates (keeps_lacking K) (h_items v)"
  "relates (keeps_lacking K) (h_get v key dflt)"
  "relates (keeps_lacking K) (h_index v key)"
  "relates (keeps_lacking K) (h_contains key v)"
  "relates (keeps_lacking K) (h_len v)"
  "relates (keeps_lacking K) (h_iter v)"
  by (auto simp: relates_def keeps_lacking_def h_items_def h_get_def h_index_def h_contains_def
      h_len_def h_iter_def)

lemma new_keeps: "relates (keeps_lacking K) (new ob)"
  by (auto simp: relates_def keeps_lacking_def new_def lacks_append)

lemma delete_keys: "fst ` set (AList.delete key d) = fst ` set d - {key}"
  by (induction d) auto

lemma lacks_update:
  assumes "lacks K h v" and "a < length h" and "h ! a = ODict d"
    and "fst ` set d' \<inter> K \<subseteq> fst ` set d \<inter> K"
  shows "lacks K (h[a := ODict d']) v"
proof -
  from assms(1) obtain b dv where
    v: "v = VRef b" "b < length h" "h ! b = ODict dv" "fst ` set dv \<inter> K = {}"
    by (cases v) (auto simp: lacks_def split: if_splits)
  show ?thesis
  proof (cases "b = a")
    case True
    with v assms(3,4) have "fst ` set d' \<inter> K = {}" by auto
    with True v show ?thesis by (simp add: lacks_def)
  next
    case False
    with v show ?thesis by (simp add: lacks_def)
  qed
qed

lemma h_pop_keeps: "relates (keeps_lacking K) (h_pop v key)"
proof (cases v)
  case (VRef a)
  show ?thesis
    unfolding relates_def keeps_lacking_def
  proof (intro allI impI)
    fix h r h' x
    assume run: "h_pop v key h = (r, h')" and l: "lacks K h x"
    show "lacks K h' x"
    proof (cases "deref h (VRef a)")
      case None
      with run VRef l show ?thesis by simp
    next
      case (Some ob)
      show ?thesis
      proof (cases ob)
        case (OList xs)
        with run VRef l Some show ?thesis by simp
      next
        case (ODict d)
        with Some have a: "a < length h" "h ! a = ODict d" by (auto split: if_splits)
        from run VRef Some ODict have "h' = h[a := ODict (AList.delete key d)]" by simp
        moreover have "fst ` set (AList.delete key d) \<inter> K \<subseteq> fst ` set d \<inter> K"
          by (auto simp: delete_keys)
        ultimately show ?thesis using lacks_update [OF l a] by simp
      qed
    qed
  qed
qed (simp_all add: relates_pure keeps_lacking_refl)

lemma update_keys: "fst ` set (AList.update key x d) = insert key (fst ` set d)"
  by (induction d) auto

lemma h_setitem_keeps:
  assumes "key \<notin> K"
  shows "relates (keeps_lacking K) (h_setitem v key x)"
proof (cases v)
  case (VRef a)
  show ?thesis
    unfolding relates_def keeps_lacking_def
  proof (intro allI impI)
    fix h r h' y
    assume run: "h_setitem v key x h = (r, h')" and l: "lacks K h y"
    show "lacks K h' y"
    proof (cases "deref h (VRef a)")
      case None
      with run VRef l show ?thesis by simp
    next
      case (Some ob)
      show ?thesis
      proof (cases ob)
        case (OList xs)
        with run VRef l Some show ?thesis by simp
      next
        case (ODict d)
        with Some have a: "a < length h" "h ! a = ODict d" by (auto split: if_splits)
        from run VRef Some ODict have "h' = h[a := ODict (AList.update key x d)]" by simp
        moreover have "fst ` set (AList.update key x d) \<inter> K \<subseteq> fst ` set d \<inter> K"
          using assms by (auto simp: update_keys)
        ultimately show ?thesis using lacks_update [OF l a] by simp
      qed
    qed
  qed
qed (simp_all add: relates_pure keeps_lacking_refl)

lemma relates_if:
  assumes "c \<Longrightarrow> relates R a" and "\<not> c \<Longrightarrow> relates R b"
  shows "relates R (if c then a else b)"
  using assms by simp

lemma keeps_bind:
  assumes "relates (keeps_lacking K) m" and "\<And>x. relates (keeps_lacking K) (f x)"
  shows "relates (keeps_lacking K) (io_bind m f)"
  using keeps_lacking_trans assms by (rule relates_bind)

lemma keeps_then:
  assumes "relates (keeps_lacking K) m" and "relates (keeps_lacking K) n"
  shows "relates (keeps_lacking K) (io_then m n)"
  unfolding io_then_def using assms by (intro keeps_bind)

lemma keeps_pure:
  "relates (keeps_lacking K) (io_return x)"
  "relates (keeps_lacking K) (io_raise e)"
  "relates (keeps_lacking K) (io_lift r)"
  by (simp_all add: relates_pure keeps_lacking_refl)

lemmas keeps_intros = keeps_bind keeps_then keeps_pure relates_if reads_keep new_keeps h_pop_keeps

lemma pop_keys_heap_keeps: "relates (keeps_lacking K) (pop_keys_heap keys v)"
proof (induction keys)
  case Nil
  show ?case by (simp add: keeps_pure)
next
  case (Cons key keys)
  show ?case unfolding pop_keys_heap.simps by (intro keeps_intros Cons.IH)
qed

lemma clean_variants_heap_keeps: "relates (keeps_lacking K) (clean_variants_heap xs)"
proof (induction xs)
  case Nil
  show ?case by (simp add: keeps_pure)
next
  case (Cons x xs)
  show ?case unfolding clean_variants_heap.simps
    by (intro keeps_intros pop_keys_heap_keeps Cons.IH)
qed

lemma clean_images_heap_keeps: "relates (keeps_lacking K) (clean_images_heap xs)"
proof (induction xs)
  case Nil
  show ?case by (simp add: keeps_pure)
next
  case (Cons img rest)
  show ?case
    unfolding clean_images_heap.simps
    by (intro keeps_intros Cons.IH)
qed

lemma lacks_union: "lacks A h v \<Longrightarrow> lacks B h v \<Longrightarrow> lacks (A \<union> B) h v"
  unfolding lacks_def by (metis Int_Un_distrib Un_empty option.inject obj.inject(1))

lemma h_pop_lacks:
  assumes "h_pop v key h = (Inr (), h')"
  shows "lacks {key} h' v"
proof (cases v)
  case (VRef a)
  with assms obtain d where "a < length h" "h' = h[a := ODict (AList.delete key d)]"
    by (auto split: option.splits obj.splits if_splits)
  with VRef show ?thesis by (simp add: lacks_def delete_keys)
qed (use assms in \<open>simp_all add: io_raise_def\<close>)

lemma pop_keys_heap_lacks:
  assumes "pop_keys_heap (key # keys) v h = (Inr (), h')"
  shows "lacks (set (key # keys)) h' v"
  using assms
proof (induction keys arbitrary: key h)
  case Nil
  then have "h_pop v key h = (Inr (), h')"
    by (auto simp: io_then_def io_bind_def io_return_def split: sum.splits prod.splits)
  from h_pop_lacks [OF this] show ?case by simp
next
  case (Cons k keys)
  from Cons.prems obtain h1 where
    p: "h_pop v key h = (Inr (), h1)" and r: "pop_keys_heap (k # keys) v h1 = (Inr (), h')"
    by (auto simp: io_then_def io_bind_def split: sum.splits prod.splits)
  from relatesD [OF pop_keys_heap_keeps r] h_pop_lacks [OF p] have "lacks {key} h' v"
    by (simp add: keeps_lacking_def)
  from lacks_union [OF this Cons.IH [OF r]] show ?case by (simp add: insert_commute)
qed

lemma clean_variants_heap_lacks:
  assumes "clean_variants_heap xs h = (Inr (), h')"
  shows "\<forall>x \<in> set xs. lacks (set keys_to_remove) h' x"
  using assms
proof (induction xs arbitrary: h)
  case Nil
  show ?case by simp
next
  case (Cons x xs)
  from Cons.prems obtain h1 where
    p: "pop_keys_heap keys_to_remove x h = (Inr (), h1)" and
    r: "clean_variants_heap xs h1 = (Inr (), h')"
    by (auto simp: io_then_def io_bind_def split: sum.splits prod.splits)
  from p have "lacks (set keys_to_remove) h1 x"
    using pop_keys_heap_lacks [of "''admin_graphql_api_id''" "tl keys_to_remove" x h h1]
    by (simp add: keys_to_remove_def)
  with relatesD [OF clean_variants_heap_keeps r] have "lacks (set keys_to_remove) h' x"
    by (simp add: keeps_lacking_def)
  with Cons.IH [OF r] show ?case by simp
qed

lemma map_of_filter_in:
  "k \<in> S \<Longrightarrow> map_of (filter (\<lambda>kv. fst kv \<in> S) d) k = map_of d k"
  by (induction d) auto

lemma h_iter_append:
  assumes "h_iter v h = (Inr xs, h)"
  shows "h_iter v (h @ [ob]) = (Inr xs, h @ [ob])"
  using assms
  by (cases v) (auto simp: h_iter_def nth_append split: option.splits obj.splits if_splits)

lemma h_len_append:
  assumes "h_iter v h = (Inr xs, h)"
  shows "\<exists>n. h_len v (h @ [ob]) = (Inr n, h @ [ob])"
  using assms
  by (cases v) (auto simp: h_iter_def h_len_def nth_append split: option.splits obj.splits if_splits)

lemma images_step_keeps:
  assumes "''images'' \<notin> K"
  shows "relates (keeps_lacking K)
     (io_bind (h_contains ''images'' cleaned_data)
        (\<lambda>has_images.
           if has_images then
             io_bind (h_index cleaned_data ''images'')
               (\<lambda>images.
                  io_bind (h_len images)
                    (\<lambda>image_count.
                       io_bind (h_iter images)
                         (\<lambda>items.
                            io_bind (clean_images_heap items)
                              (\<lambda>cleaned.
                                 io_bind (new (OList cleaned))
                                   (\<lambda>cleaned_images.
                                      h_setitem cleaned_data ''images'' cleaned_images)))))
           else io_return ()))"
  by (intro keeps_intros clean_images_heap_keeps h_setitem_keeps assms)

lemma lacks_nothing: "lacks {} h v = is_dict_at h v"
  by (auto simp: lacks_def is_dict_at_def split: option.splits obj.splits)

lemma h_pop_total:
  assumes "is_dict_at h v"
  shows "\<exists>h'. h_pop v key h = (Inr (), h')"
  using assms by (cases v) (auto simp: is_dict_at_def split: option.splits obj.splits if_splits)

lemma pop_keys_heap_total:
  assumes "is_dict_at h v"
  shows "\<exists>h'. pop_keys_heap keys v h = (Inr (), h')"
  using assms
proof (induction keys arbitrary: h)
  case Nil
  show ?case by (simp add: io_return_def)
next
  case (Cons key keys)
  from h_pop_total [OF Cons.prems] obtain h1 where p: "h_pop v key h = (Inr (), h1)" by blast
  from relatesD [OF h_pop_keeps p, of "{}"] Cons.prems have "is_dict_at h1 v"
    by (simp add: keeps_lacking_def lacks_nothing)
  from Cons.IH [OF this] p show ?case by (simp add: io_then_def io_bind_def)
qed

lemma clean_variants_heap_total:
  assumes "\<forall>x \<in> set xs. is_dict_at h x"
  shows "\<exists>h'. clean_variants_heap xs h = (Inr (), h')"
  using assms
proof (induction xs arbitrary: h)
  case Nil
  show ?case by (simp add: io_return_def)
next
  case (Cons x xs)
  from Cons.prems have "is_dict_at h x" by simp
  from pop_keys_heap_total [OF this] obtain h1 where
    p: "pop_keys_heap keys_to_remove x h = (Inr (), h1)" by blast
  from relatesD [OF pop_keys_heap_keeps p, of "{}"] Cons.prems
  have "\<forall>y \<in> set xs. is_dict_at h1 y"
    by (simp add: keeps_lacking_def lacks_nothing)
  from Cons.IH [OF this] p show ?case by (simp add: io_then_def io_bind_def)
qed

lemma is_dict_at_append: "is_dict_at h v \<Longrightarrow> is_dict_at (h @ [ob]) v"
  using lacks_append [of "{}" h v ob] by (simp add: lacks_nothing)

lemma prepare_product_data_heap_lacks:
  assumes items: "deref h product_data = Some (ODict items)"
    and dicts: "\<forall>x \<in> set (variants_of h product_data). is_dict_at h x"
  shows "\<forall>x \<in> set (variants_of h product_data).
           lacks (set keys_to_remove) (snd (prepare_product_data_heap product_data h)) x"
proof (cases "variants_of h product_data = []")
  case True
  then show ?thesis by simp
next
  case False
  from False items obtain variants where
    v: "map_of items ''variants'' = Some variants" and
    it: "h_iter variants h = (Inr (variants_of h product_data), h)"
    by (auto simp: variants_of_def h_index_def h_iter_def split: option.splits sum.splits)
  let ?F = "filter (\<lambda>kv. fst kv \<in> set allowed_fields) items"
  let ?h0 = "h @ [ODict ?F]"
  let ?c = "VRef (length h)"
  have "''variants'' \<in> set allowed_fields" by (simp add: allowed_fields_def)
  from map_of_filter_in [OF this, of items] v
  have fv: "map_of ?F ''variants'' = Some variants" by simp
  from h_len_append [OF it] obtain n where
    len: "h_len variants ?h0 = (Inr n, ?h0)" by blast
  note it0 = h_iter_append [OF it, of "ODict ?F"]
  have c: "h_contains ''variants'' ?c ?h0 = (Inr True, ?h0)"
    "h_index ?c ''variants'' ?h0 = (Inr variants, ?h0)"
    using fv by (simp_all add: h_contains_def h_index_def)
  from dicts have "\<forall>x \<in> set (variants_of h product_data). is_dict_at ?h0 x"
    by (simp add: is_dict_at_append)
  from clean_variants_heap_total [OF this] obtain h1 where
    cv: "clean_variants_heap (variants_of h product_data) ?h0 = (Inr (), h1)" by blast
  let ?images = "io_bind (h_contains ''images'' ?c)
        (\<lambda>has_images.
           if has_images then
             io_bind (h_index ?c ''images'')
               (\<lambda>images.
                  io_bind (h_len images)
                    (\<lambda>image_count.
                       io_bind (h_iter images)
                         (\<lambda>items.
                            io_bind (clean_images_heap items)
                              (\<lambda>cleaned.
                                 io_bind (new (OList cleaned))
                                   (\<lambda>cleaned_images.
                                      h_setitem ?c ''images'' cleaned_images)))))
           else io_return ())"
  obtain r2 h2 where im: "?images h1 = (r2, h2)" by (cases "?images h1")
  from items c len it0 cv im have "snd (prepare_product_data_heap product_data h) = h2"
    by (cases r2)
      (simp_all add: prepare_product_data_heap_def h_items_def new_def io_bind_def io_then_def
        io_return_def)
  moreover have "''images'' \<notin> set keys_to_remove" by (simp add: keys_to_remove_def)
  from relatesD [OF images_step_keeps [OF this] im]
  have "keeps_lacking (set keys_to_remove) h1 h2" .
  ultimately show ?thesis
    using clean_variants_heap_lacks [OF cv] by (simp add: keeps_lacking_def)
qed

lemma lacks_keys_at:
  assumes "lacks K h v"
  shows "is_dict_at h v \<and> set (keys_at h v) \<inter> K = {}"
  using assms by (fastforce simp: lacks_def is_dict_at_def keys_at_def disjoint_iff)

lemma prepare_product_data_heap_no_dict:
  assumes "\<not> is_dict_at h product_data"
  shows "snd (prepare_product_data_heap product_data h) = h"
  using assms
  by (auto simp: prepare_product_data_heap_def h_items_def io_bind_def is_dict_at_def
      split: option.splits obj.splits)

lemma create_product_heap_effect:
  "fst (snd (create_product_heap send self product_data (h, w)))
     = snd (prepare_product_data_heap product_data h)"
proof (cases "is_dict_at h product_data")
  case False
  then have "fst (snd (create_product_heap send self product_data (h, w))) = h"
    by (auto simp: create_product_heap_def on_heap_def h_get_def io_bind_def is_dict_at_def
        split: option.splits obj.splits)
  with prepare_product_data_heap_no_dict [OF False] show ?thesis by simp
next
  case True
  then obtain title_value where
    t: "h_get product_data ''title'' (VStr ''Unknown'') h = (Inr title_value, h)"
    by (auto simp: h_get_def is_dict_at_def split: option.splits obj.splits)
  obtain r h' where p: "prepare_product_data_heap product_data h = (r, h')"
    by (cases "prepare_product_data_heap product_data h")
  show ?thesis
  proof (cases r)
    case (Inl e)
    with t p show ?thesis
      by (simp add: create_product_heap_def on_heap_def on_world_def shown_def io_bind_def
          io_then_def log_def io_modify_def)
  next
    case (Inr clean_data)
    with t p show ?thesis
      by (simp add: create_product_heap_def on_heap_def on_world_def shown_def dumps_def
          io_bind_def io_then_def log_def io_modify_def split: sum.splits prod.splits)
  qed
qed

lemma update_product_heap_effect:
  "fst (snd (update_product_heap send self product_id product_data (h, w)))
     = snd (prepare_product_data_heap product_data h)"
proof (cases "is_dict_at h product_data")
  case False
  then have "fst (snd (update_product_heap send self product_id product_data (h, w))) = h"
    by (auto simp: update_product_heap_def on_heap_def h_get_def io_bind_def is_dict_at_def
        split: option.splits obj.splits)
  with prepare_product_data_heap_no_dict [OF False] show ?thesis by simp
next
  case True
  then obtain title_value where
    t: "h_get product_data ''title'' (VStr ''Unknown'') h = (Inr title_value, h)"
    by (auto simp: h_get_def is_dict_at_def split: option.splits obj.splits)
  obtain r h' where p: "prepare_product_data_heap product_data h = (r, h')"
    by (cases "prepare_product_data_heap product_data h")
  show ?thesis
  proof (cases r)
    case (Inl e)
    with t p show ?thesis
      by (simp add: update_product_heap_def on_heap_def on_world_def shown_def io_bind_def
          io_then_def log_def io_modify_def)
  next
    case (Inr clean_data)
    with t p show ?thesis
      by (simp add: update_product_heap_def on_heap_def on_world_def shown_def dumps_def
          io_bind_def io_then_def log_def io_modify_def split: sum.splits prod.splits)
  qed
qed

text \<open>
  C9, as amended. The writes change their input. For a product whose variants are
  dicts, in the store that \<^verbatim>\<open>create_product\<close> or \<^verbatim>\<open>update_product\<close> leaves behind, whatever the
  destination answers and whether or not the call raises later, every variant object of
  the caller's product is a dict without the keys id, product_id, image_id,
  inventory_item_id, old_inventory_quantity, requires_shipping and admin_graphql_api_id:
  \<^verbatim>\<open>_prepare_product_data\<close> has popped them from the caller's own objects.
\<close>

theorem writes_pop_the_callers_variants:
  assumes "\<forall>x \<in> set (variants_of h product_data). is_dict_at h x"
  shows "fst (snd (create_product_heap send self product_data (h, w)))
           = snd (prepare_product_data_heap product_data h)
       \<and> fst (snd (update_product_heap send self product_id product_data (h, w)))
           = snd (prepare_product_data_heap product_data h)
       \<and> (\<forall>x \<in> set (variants_of h product_data).
             is_dict_at (snd (prepare_product_data_heap product_data h)) x \<and>
             set (keys_at (snd (prepare_product_data_heap product_data h)) x) \<inter>
               {''id'', ''product_id'', ''image_id'', ''inventory_item_id'',
                ''old_inventory_quantity'', ''requires_shipping'', ''admin_graphql_api_id''} = {})"
proof -
  have keys: "set keys_to_remove =
      {''id'', ''product_id'', ''image_id'', ''inventory_item_id'',
       ''old_inventory_quantity'', ''requires_shipping'', ''admin_graphql_api_id''}"
    by (auto simp: keys_to_remove_def)
  have "\<forall>x \<in> set (variants_of h product_data).
      is_dict_at (snd (prepare_product_data_heap product_data h)) x \<and>
      set (keys_at (snd (prepare_product_data_heap product_data h)) x) \<inter>
        {''id'', ''product_id'', ''image_id'', ''inventory_item_id'',
         ''old_inventory_quantity'', ''requires_shipping'', ''admin_graphql_api_id''} = {}"
  proof (cases "is_dict_at h product_data")
    case False
    then have "variants_of h product_data = []"
      by (auto simp: variants_of_def h_index_def is_dict_at_def split: option.splits obj.splits)
    then show ?thesis by simp
  next
    case True
    then obtain items where items: "deref h product_data = Some (ODict items)"
      by (auto simp: is_dict_at_def split: option.splits obj.splits)
    from prepare_product_data_heap_lacks [OF items assms] lacks_keys_at keys
    show ?thesis by metis
  qed
  with create_product_heap_effect [of send self product_data h w]
    update_product_heap_effect [of send self product_id product_data h w]
  show ?thesis by blast
qed

lemmas heap_defs = h_items_def h_get_def h_index_def h_contains_def h_len_def h_iter_def
  new_def prepare_product_data_heap_def dumps_def variants_of_def keys_at_def is_dict_at_def
  sample_ref_def sample_heap_def sample_product_def allowed_fields_def keys_to_remove_def
  mixed_ref_def mixed_heap_def mixed_product_def
  io_return_def io_raise_def io_lift_def io_bind_def io_then_def

lemma sample_heap_length: "length sample_heap = 10"
  by (simp add: sample_heap_def sample_product_def)

lemma sample_variants_before:
  "map (keys_at sample_heap) (variants_of sample_heap sample_ref)
     = [[''id'', ''product_id'', ''sku'', ''price'', ''inventory_quantity''],
        [''id'', ''product_id'', ''sku'', ''price'', ''inventory_quantity'']]"
  by (simp add: heap_defs)

lemma sample_prepare:
  "fst (prepare_product_data_heap sample_ref sample_heap) = Inr (VRef (length sample_heap))"
  by (simp add: heap_defs)

lemma sample_variants_after:
  "map (keys_at (snd (prepare_product_data_heap sample_ref sample_heap)))
       (variants_of sample_heap sample_ref)
     = [[''sku'', ''price'', ''inventory_quantity''],
        [''sku'', ''price'', ''inventory_quantity'']]"
  by (simp add: heap_defs)

lemma sample_payload_agrees:
  "fst (dumps (VRef (length sample_heap))
          (snd (prepare_product_data_heap sample_ref sample_heap))) = Inr sample_payload"
  by (simp add: heap_defs sample_payload_def)

theorem writes_pop_the_callers_variants_witness:
  "map (keys_at sample_heap) (variants_of sample_heap sample_ref)
     = [[''id'', ''product_id'', ''sku'', ''price'', ''inventory_quantity''],
        [''id'', ''product_id'', ''sku'', ''price'', ''inventory_quantity'']]
   \<and> map (keys_at (fst (snd (create_product_heap (answer_from []) dest_store sample_ref
              (sample_heap, idle)))))
         (variants_of sample_heap sample_ref)
     = [[''sku'', ''price'', ''inventory_quantity''],
        [''sku'', ''price'', ''inventory_quantity'']]
   \<and> map (keys_at (fst (snd (update_product_heap (answer_from []) dest_store (JInt 42) sample_ref
              (sample_heap, idle)))))
         (variants_of sample_heap sample_ref)
     = [[''sku'', ''price'', ''inventory_quantity''],
        [''sku'', ''price'', ''inventory_quantity'']]"
proof -
  have v: "\<forall>x \<in> set (variants_of sample_heap sample_ref). is_dict_at sample_heap x"
    by (simp add: heap_defs)
  from writes_pop_the_callers_variants [OF v, of "answer_from []" dest_store idle "JInt 42"]
  have "fst (snd (create_product_heap (answer_from []) dest_store sample_ref (sample_heap, idle)))
      = snd (prepare_product_data_heap sample_ref sample_heap)"
    and "fst (snd (update_product_heap (answer_from []) dest_store (JInt 42) sample_ref
          (sample_heap, idle)))
      = snd (prepare_product_data_heap sample_ref sample_heap)"
    by blast+
  with sample_variants_before sample_variants_after show ?thesis by simp
qed

text \<open>
  The claim as stated, for every call, fails on a product whose first variant is a list:
  \<^verbatim>\<open>list.pop(key, None)\<close> raises at that entry, both writes raise \<^verbatim>\<open>TypeError\<close> before any
  request, and the dict variant after it still has its id.
\<close>

theorem later_variant_keeps_its_keys:
  "is_dict_at mixed_heap mixed_ref
   \<and> fst (create_product_heap (answer_from []) dest_store mixed_ref (mixed_heap, idle))
       = Inl TypeError
   \<and> map (keys_at (fst (snd (create_product_heap (answer_from []) dest_store mixed_ref
              (mixed_heap, idle)))))
         (variants_of mixed_heap mixed_ref)
     = [[], [''id'', ''sku'']]
   \<and> fst (update_product_heap (answer_from []) dest_store (JInt 42) mixed_ref (mixed_heap, idle))
       = Inl TypeError
   \<and> map (keys_at (fst (snd (update_product_heap (answer_from []) dest_store (JInt 42) mixed_ref
              (mixed_heap, idle)))))
         (variants_of mixed_heap mixed_ref)
     = [[], [''id'', ''sku'']]"
  by (simp add: heap_defs create_product_heap_def update_product_heap_def on_heap_def
      on_world_def shown_def log_def io_modify_def)

end
